theory Spec2Isabelle
  imports Complex_Main
begin

section \<open>Values shared by the batch scorer and the single-transaction analyzer\<close>

text \<open>
  The embedding follows \<^verbatim>\<open>fraud_detector.py\<close> (class FraudDetector, the batch scorer)
  and \<^verbatim>\<open>transaction_analyzer.py\<close> (class TransactionAnalyzer). A float is a real
  number or one of the non-finite values of IEEE arithmetic. The column mean, the column
  standard deviation and the z-score computed from them are rounded to double precision
  operation by operation, as numpy computes them, because the outcome of the z-score rule
  depends on a deviation that rounds to zero. The other sums and comparisons of the two
  classes are over the reals: their rounding is not part of the model.
\<close>

subsection \<open>numpy floats with their non-finite values\<close>

datatype npfloat = Fin real | PInf | NInf | NaN

fun fl_add :: "npfloat \<Rightarrow> npfloat \<Rightarrow> npfloat" where
  "fl_add (Fin a) (Fin b) = Fin (a + b)"
| "fl_add NaN _ = NaN"
| "fl_add _ NaN = NaN"
| "fl_add PInf NInf = NaN"
| "fl_add NInf PInf = NaN"
| "fl_add PInf _ = PInf"
| "fl_add _ PInf = PInf"
| "fl_add NInf _ = NInf"
| "fl_add _ NInf = NInf"

fun fl_neg :: "npfloat \<Rightarrow> npfloat" where
  "fl_neg (Fin a) = Fin (- a)"
| "fl_neg PInf = NInf"
| "fl_neg NInf = PInf"
| "fl_neg NaN = NaN"

definition fl_sub :: "npfloat \<Rightarrow> npfloat \<Rightarrow> npfloat" where
  "fl_sub x y = fl_add x (fl_neg y)"

text \<open>Division as numpy performs it on float64: a zero divisor gives NaN for a zero
  numerator and an infinity otherwise; nothing is raised.\<close>

fun fl_div :: "npfloat \<Rightarrow> npfloat \<Rightarrow> npfloat" where
  "fl_div (Fin a) (Fin b) =
     (if b = 0 then (if a = 0 then NaN else if 0 < a then PInf else NInf) else Fin (a / b))"
| "fl_div NaN _ = NaN"
| "fl_div _ NaN = NaN"
| "fl_div (Fin a) _ = Fin 0"
| "fl_div PInf (Fin b) = (if 0 \<le> b then PInf else NInf)"
| "fl_div NInf (Fin b) = (if 0 \<le> b then NInf else PInf)"
| "fl_div _ _ = NaN"

fun fl_abs :: "npfloat \<Rightarrow> npfloat" where
  "fl_abs (Fin a) = Fin \<bar>a\<bar>"
| "fl_abs PInf = PInf"
| "fl_abs NInf = PInf"
| "fl_abs NaN = NaN"

text \<open>Comparisons: every comparison with NaN is false.\<close>

fun fl_less :: "npfloat \<Rightarrow> npfloat \<Rightarrow> bool" where
  "fl_less NaN _ = False"
| "fl_less _ NaN = False"
| "fl_less (Fin a) (Fin b) = (a < b)"
| "fl_less NInf NInf = False"
| "fl_less NInf _ = True"
| "fl_less _ NInf = False"
| "fl_less PInf _ = False"
| "fl_less _ PInf = True"

definition fl_greater :: "npfloat \<Rightarrow> npfloat \<Rightarrow> bool" where
  "fl_greater x y = fl_less y x"

fun fl_ge :: "npfloat \<Rightarrow> npfloat \<Rightarrow> bool" where
  "fl_ge NaN _ = False"
| "fl_ge _ NaN = False"
| "fl_ge x y = (\<not> fl_less x y)"

text \<open>\<^verbatim>\<open>np.minimum\<close> propagates NaN.\<close>

fun fl_minimum :: "npfloat \<Rightarrow> npfloat \<Rightarrow> npfloat" where
  "fl_minimum NaN _ = NaN"
| "fl_minimum _ NaN = NaN"
| "fl_minimum x y = (if fl_less y x then y else x)"

fun fl_mul :: "npfloat \<Rightarrow> npfloat \<Rightarrow> npfloat" where
  "fl_mul (Fin a) (Fin b) = Fin (a * b)"
| "fl_mul NaN _ = NaN"
| "fl_mul _ NaN = NaN"
| "fl_mul (Fin a) PInf = (if a = 0 then NaN else if 0 < a then PInf else NInf)"
| "fl_mul (Fin a) NInf = (if a = 0 then NaN else if 0 < a then NInf else PInf)"
| "fl_mul PInf (Fin b) = (if b = 0 then NaN else if 0 < b then PInf else NInf)"
| "fl_mul NInf (Fin b) = (if b = 0 then NaN else if 0 < b then NInf else PInf)"
| "fl_mul PInf PInf = PInf"
| "fl_mul NInf NInf = PInf"
| "fl_mul _ _ = NInf"

subsection \<open>Rounding to double precision\<close>

text \<open>Rounding to the nearest integer, a tie to the even one.\<close>

definition round_half_even :: "real \<Rightarrow> int" where
  "round_half_even x =
     (let f = \<lfloor>x\<rfloor>; d = x - of_int f
      in if d < 1 / 2 then f else if d > 1 / 2 then f + 1 else if even f then f else f + 1)"

text \<open>The binary exponent of a number; below \<open>2 powi (- 1022)\<close> the doubles are
  subnormal and keep that exponent.\<close>

definition double_exponent :: "real \<Rightarrow> int" where
  "double_exponent x = max \<lfloor>log 2 \<bar>x\<bar>\<rfloor> (- 1022)"

text \<open>The double nearest to a real number: 53 significant bits, ties to even, gradual
  underflow, and an infinity from \<open>2 powi 1024\<close> on.\<close>

definition to_double :: "real \<Rightarrow> npfloat" where
  "to_double x =
     (if x = 0 then Fin 0
      else let q = 2 powi (double_exponent x - 52);
               y = of_int (round_half_even (x / q)) * q
           in if \<bar>y\<bar> \<ge> 2 powi 1024 then (if 0 < x then PInf else NInf) else Fin y)"

fun rounded :: "npfloat \<Rightarrow> npfloat" where
  "rounded (Fin x) = to_double x"
| "rounded v = v"

text \<open>The arithmetic of float64: the exact result, rounded.\<close>

definition f64_add :: "npfloat \<Rightarrow> npfloat \<Rightarrow> npfloat" where
  "f64_add x y = rounded (fl_add x y)"

definition f64_sub :: "npfloat \<Rightarrow> npfloat \<Rightarrow> npfloat" where
  "f64_sub x y = rounded (fl_sub x y)"

definition f64_mul :: "npfloat \<Rightarrow> npfloat \<Rightarrow> npfloat" where
  "f64_mul x y = rounded (fl_mul x y)"

definition f64_div :: "npfloat \<Rightarrow> npfloat \<Rightarrow> npfloat" where
  "f64_div x y = rounded (fl_div x y)"

fun f64_sqrt :: "npfloat \<Rightarrow> npfloat" where
  "f64_sqrt (Fin x) = (if x < 0 then NaN else to_double (sqrt x))"
| "f64_sqrt PInf = PInf"
| "f64_sqrt NInf = NaN"
| "f64_sqrt NaN = NaN"

text \<open>\<^verbatim>\<open>ndarray.sum()\<close>: numpy adds a column of fewer than eight values from left to
  right, as here; it adds a longer column in blocks, in an order the model does not
  follow.\<close>

definition f64_sum :: "npfloat list \<Rightarrow> npfloat" where
  "f64_sum vs = fold (\<lambda>v acc. f64_add acc v) vs (Fin 0)"

text \<open>Python's and numpy's float remainder for a positive divisor.\<close>

definition py_mod :: "real \<Rightarrow> real \<Rightarrow> real" where
  "py_mod a m = a - m * of_int \<lfloor>a / m\<rfloor>"

subsection \<open>Column statistics of pandas\<close>

text \<open>\<^verbatim>\<open>Series.mean\<close>: the sum divided by the count, NaN (0/0) on an empty
  column.\<close>

definition mean :: "real list \<Rightarrow> npfloat" where
  "mean xs = f64_div (f64_sum (map Fin xs)) (Fin (real (length xs)))"

text \<open>\<^verbatim>\<open>Series.std\<close>: the sample standard deviation (ddof = 1), NaN on a column of
  fewer than two values. pandas takes the mean, squares the deviations from it, adds the
  squares, divides by the count less one and takes the square root.\<close>

definition std :: "real list \<Rightarrow> npfloat" where
  "std xs =
     (if length xs \<le> 1 then NaN
      else let avg = f64_div (f64_sum (map Fin xs)) (Fin (real (length xs)));
               sqr = map (\<lambda>x. let d = f64_sub avg (Fin x) in f64_mul d d) xs
           in f64_sqrt (f64_div (f64_sum sqr) (Fin (real (length xs - 1)))))"

text \<open>\<^verbatim>\<open>Series.quantile(q)\<close> with the default linear interpolation.\<close>

definition quantile :: "real list \<Rightarrow> real \<Rightarrow> npfloat" where
  "quantile xs q =
     (if xs = [] then NaN
      else let s = sort xs;
               h = real (length xs - 1) * q;
               lo = nat \<lfloor>h\<rfloor>;
               hi = min (lo + 1) (length xs - 1)
           in Fin (s ! lo + (h - real lo) * (s ! hi - s ! lo)))"

text \<open>\<^verbatim>\<open>Series.unique()\<close>: the distinct values in order of first appearance.\<close>

fun unique :: "'a list \<Rightarrow> 'a list" where
  "unique [] = []"
| "unique (x # xs) = x # unique (filter (\<lambda>y. y \<noteq> x) xs)"

text \<open>\<^verbatim>\<open>Series.value_counts()\<close> drops missing values; only the counts are used, so
  the order of the result is the order of first appearance here.\<close>

definition value_counts :: "'a option list \<Rightarrow> ('a \<times> nat) list" where
  "value_counts col =
     (let vs = map the (filter (\<lambda>v. v \<noteq> None) col)
      in map (\<lambda>v. (v, count_list vs v)) (unique vs))"

subsection \<open>Strings\<close>

text \<open>Strings are byte strings; \<^verbatim>\<open>str.lower\<close> acts on the ASCII letters.\<close>

definition lower_char :: "char \<Rightarrow> char" where
  "lower_char c =
     (case map_of (zip ''ABCDEFGHIJKLMNOPQRSTUVWXYZ'' ''abcdefghijklmnopqrstuvwxyz'') c of
        Some d \<Rightarrow> d
      | None \<Rightarrow> c)"

definition lower :: "string \<Rightarrow> string" where
  "lower s = map lower_char s"

text \<open>\<^verbatim>\<open>kw in s\<close>: the substring test.\<close>

fun is_substr :: "string \<Rightarrow> string \<Rightarrow> bool" where
  "is_substr kw [] = (kw = [])"
| "is_substr kw (c # cs) = (take (length kw) (c # cs) = kw \<or> is_substr kw cs)"

text \<open>\<^verbatim>\<open>Series.str.lower().str.contains(kw, na=False)\<close>: the keywords of the source hold
  no regular-expression metacharacter, so the search is the substring test; a missing
  value gives False.\<close>

definition str_lower_contains :: "string \<Rightarrow> string option \<Rightarrow> bool" where
  "str_lower_contains kw v = (case v of None \<Rightarrow> False | Some s \<Rightarrow> is_substr kw (lower s))"

text \<open>\<^verbatim>\<open>str.rstrip(', ')\<close> removes the trailing commas and blanks.\<close>

definition rstrip_comma_space :: "string \<Rightarrow> string" where
  "rstrip_comma_space s = rev (dropWhile (\<lambda>c. c = CHR '','' \<or> c = CHR '' '') (rev s))"

subsection \<open>Timestamps\<close>

text \<open>A timestamp is a number of seconds since 1970-01-01 00:00:00, without a time
  zone; a timedelta is a number of seconds.\<close>

type_synonym timestamp = int

definition hour_of :: "timestamp \<Rightarrow> nat" where
  "hour_of t = nat ((t div 3600) mod 24)"

definition date_of :: "timestamp \<Rightarrow> int" where
  "date_of t = t div 86400"

text \<open>Monday is 0 and Sunday is 6; 1970-01-01 was a Thursday.\<close>

definition dayofweek :: "timestamp \<Rightarrow> nat" where
  "dayofweek t = nat ((date_of t + 3) mod 7)"

definition floor_hour :: "timestamp \<Rightarrow> int" where
  "floor_hour t = t div 3600"

text \<open>Month and day of the month of a day number, in the proleptic Gregorian calendar.\<close>

definition day_of_era :: "int \<Rightarrow> int" where
  "day_of_era d = (d + 719468) mod 146097"

definition year_of_era :: "int \<Rightarrow> int" where
  "year_of_era d =
     (let doe = day_of_era d
      in (doe - doe div 1460 + doe div 36524 - doe div 146096) div 365)"

definition day_of_march_year :: "int \<Rightarrow> int" where
  "day_of_march_year d =
     (let yoe = year_of_era d
      in day_of_era d - (365 * yoe + yoe div 4 - yoe div 100))"

definition month_of :: "timestamp \<Rightarrow> nat" where
  "month_of t =
     (let mp = (5 * day_of_march_year (date_of t) + 2) div 153
      in nat (if mp < 10 then mp + 3 else mp - 9))"

definition day_of :: "timestamp \<Rightarrow> nat" where
  "day_of t =
     (let doy = day_of_march_year (date_of t);
          mp = (5 * doy + 2) div 153
      in nat (doy - (153 * mp + 2) div 5 + 1))"

text \<open>\<^verbatim>\<open>Series.diff()\<close> on a timestamp column: the first entry is NaT.\<close>

definition diff :: "timestamp list \<Rightarrow> int option list" where
  "diff ts = (case ts of [] \<Rightarrow> [] | t # rest \<Rightarrow> None # map (\<lambda>(a, b). Some (b - a)) (zip ts rest))"

text \<open>A comparison with NaT is false.\<close>

definition td_less :: "int option \<Rightarrow> int \<Rightarrow> bool" where
  "td_less d bound = (case d of None \<Rightarrow> False | Some x \<Rightarrow> x < bound)"

section \<open>The batch scorer: FraudDetector\<close>

subsection \<open>Rows, frames and settings\<close>

text \<open>A row of the transaction frame with the three columns the scorer writes. The text
  columns may hold a missing value; the scorer reads them with \<^verbatim>\<open>na=False\<close>.\<close>

record row =
  transaction_id :: string
  amount :: real
  merchant :: "string option"
  location :: "string option"
  timestamp :: timestamp
  user_id :: string
  card_type :: string
  merchant_category :: "string option"
  risk_score :: npfloat
  is_fraud :: bool
  fraud_reasons :: string

text \<open>A frame is the list of its rows; the index is the default one, so a row's label is
  its position.\<close>

type_synonym frame = "row list"

record time_of_day =
  tod_hour :: nat
  tod_minute :: nat

record settings =
  high_risk_threshold :: real
  medium_risk_threshold :: real
  unusual_amount_threshold :: real
  micro_transaction_threshold :: real
  off_hours_start :: time_of_day
  off_hours_end :: time_of_day
  max_transactions_per_hour :: int
  max_amount_per_day :: real

definition default_settings :: settings where
  "default_settings =
     \<lparr>high_risk_threshold = 0.7, medium_risk_threshold = 0.4,
      unusual_amount_threshold = 10000, micro_transaction_threshold = 1,
      off_hours_start = \<lparr>tod_hour = 22, tod_minute = 0\<rparr>,
      off_hours_end = \<lparr>tod_hour = 6, tod_minute = 0\<rparr>,
      max_transactions_per_hour = 10, max_amount_per_day = 50000\<rparr>"

text \<open>The argument of \<^verbatim>\<open>update_settings\<close> is a dictionary that names some of the
  settings; \<^verbatim>\<open>dict.update\<close> replaces the named entries and keeps the others.\<close>

record settings_update =
  new_high_risk_threshold :: "real option"
  new_medium_risk_threshold :: "real option"
  new_unusual_amount_threshold :: "real option"
  new_micro_transaction_threshold :: "real option"
  new_off_hours_start :: "time_of_day option"
  new_off_hours_end :: "time_of_day option"
  new_max_transactions_per_hour :: "int option"
  new_max_amount_per_day :: "real option"

definition override :: "'a \<Rightarrow> 'a option \<Rightarrow> 'a" where
  "override old new = (case new of None \<Rightarrow> old | Some v \<Rightarrow> v)"

definition update_settings :: "settings \<Rightarrow> settings_update \<Rightarrow> settings" where
  "update_settings s u =
     \<lparr>high_risk_threshold = override (high_risk_threshold s) (new_high_risk_threshold u),
      medium_risk_threshold = override (medium_risk_threshold s) (new_medium_risk_threshold u),
      unusual_amount_threshold =
        override (unusual_amount_threshold s) (new_unusual_amount_threshold u),
      micro_transaction_threshold =
        override (micro_transaction_threshold s) (new_micro_transaction_threshold u),
      off_hours_start = override (off_hours_start s) (new_off_hours_start u),
      off_hours_end = override (off_hours_end s) (new_off_hours_end u),
      max_transactions_per_hour =
        override (max_transactions_per_hour s) (new_max_transactions_per_hour u),
      max_amount_per_day = override (max_amount_per_day s) (new_max_amount_per_day u)\<rparr>"

subsection \<open>Adding a contribution to the selected rows\<close>

text \<open>The pair of statements
  \<^verbatim>\<open>df.loc[mask, 'risk_score'] += c; df.loc[mask, 'fraud_reasons'] += label\<close>
  on one row.\<close>

definition bump :: "real \<Rightarrow> string \<Rightarrow> row \<Rightarrow> row" where
  "bump c label r =
     r\<lparr>risk_score := fl_add (risk_score r) (Fin c), fraud_reasons := fraud_reasons r @ label\<rparr>"

text \<open>With a boolean mask over the rows.\<close>

definition loc_add :: "(row \<Rightarrow> bool) \<Rightarrow> real \<Rightarrow> string \<Rightarrow> frame \<Rightarrow> frame" where
  "loc_add msk c label df = map (\<lambda>r. if msk r then bump c label r else r) df"

text \<open>With a list of index labels.\<close>

definition loc_add_at :: "nat list \<Rightarrow> real \<Rightarrow> string \<Rightarrow> frame \<Rightarrow> frame" where
  "loc_add_at idx c label df =
     map (\<lambda>(i, r). if i \<in> set idx then bump c label r else r) (enumerate 0 df)"

text \<open>\<^verbatim>\<open>df.sort_values('timestamp')\<close>: the rows with their labels, in ascending order
  of timestamp. pandas leaves the order of rows of equal timestamp to its sorting
  algorithm; here they keep the order they have in the frame.\<close>

definition sort_values_timestamp :: "frame \<Rightarrow> (nat \<times> row) list" where
  "sort_values_timestamp df = sort_key (\<lambda>ir. timestamp (snd ir)) (enumerate 0 df)"

subsection \<open>Amount rules\<close>

definition extreme_amounts :: "frame \<Rightarrow> row \<Rightarrow> bool" where
  "extreme_amounts df r =
     (let amount_mean = mean (map amount df);
          amount_std = std (map amount df);
          z_threshold = 3
      in fl_greater (fl_abs (f64_div (f64_sub (Fin (amount r)) amount_mean) amount_std))
           (Fin z_threshold))"

definition large_amounts :: "settings \<Rightarrow> row \<Rightarrow> bool" where
  "large_amounts s r = (amount r > unusual_amount_threshold s)"

definition micro_amounts :: "settings \<Rightarrow> row \<Rightarrow> bool" where
  "micro_amounts s r = (amount r < micro_transaction_threshold s)"

definition round_amounts :: "row \<Rightarrow> bool" where
  "round_amounts r = (py_mod (amount r) 100 = 0 \<and> amount r > 100)"

definition check_amount_anomalies :: "settings \<Rightarrow> frame \<Rightarrow> frame" where
  "check_amount_anomalies s df =
     loc_add round_amounts 0.05 ''Round amount, ''
       (loc_add (micro_amounts s) 0.1 ''Micro transaction, ''
         (loc_add (large_amounts s) 0.2 ''Large amount, ''
           (loc_add (extreme_amounts df) 0.3 ''Extreme amount, '' df)))"

subsection \<open>Time rules\<close>

definition off_hours :: "settings \<Rightarrow> row \<Rightarrow> bool" where
  "off_hours s r =
     (let off_hours_start = tod_hour (off_hours_start s);
          off_hours_end = tod_hour (off_hours_end s);
          hour = hour_of (timestamp r)
      in if off_hours_start > off_hours_end
         then hour \<ge> off_hours_start \<or> hour \<le> off_hours_end
         else hour \<ge> off_hours_start \<and> hour \<le> off_hours_end)"

definition weekend_transactions :: "row \<Rightarrow> bool" where
  "weekend_transactions r = (dayofweek (timestamp r) \<in> {5, 6})"

definition check_time_patterns :: "settings \<Rightarrow> frame \<Rightarrow> frame" where
  "check_time_patterns s df =
     loc_add weekend_transactions 0.05 ''Weekend transaction, ''
       (loc_add (off_hours s) 0.15 ''Off-hours transaction, '' df)"

subsection \<open>Velocity rules\<close>

text \<open>The rows of one user, in timestamp order, with their labels.\<close>

definition rows_of_user :: "(nat \<times> row) list \<Rightarrow> string \<Rightarrow> (nat \<times> row) list" where
  "rows_of_user df_sorted u = filter (\<lambda>ir. user_id (snd ir) = u) df_sorted"

definition time_diff :: "(nat \<times> row) list \<Rightarrow> int option list" where
  "time_diff user_transactions = diff (map (\<lambda>ir. timestamp (snd ir)) user_transactions)"

text \<open>Labels of the rows less than one minute after the user's previous row.\<close>

definition rapid_indices :: "(nat \<times> row) list \<Rightarrow> nat list" where
  "rapid_indices user_transactions =
     map (\<lambda>(ir, d). fst ir)
       (filter (\<lambda>(ir, d). td_less d 60) (zip user_transactions (time_diff user_transactions)))"

text \<open>\<^verbatim>\<open>groupby('hour_group').size()\<close> and the hours whose count exceeds the limit;
  \<^verbatim>\<open>groupby\<close> sorts its keys.\<close>

definition excessive_hours :: "settings \<Rightarrow> (nat \<times> row) list \<Rightarrow> int list" where
  "excessive_hours s user_transactions =
     (let hour_group = map (\<lambda>ir. floor_hour (timestamp (snd ir))) user_transactions
      in filter (\<lambda>h. int (count_list hour_group h) > max_transactions_per_hour s)
           (sort (unique hour_group)))"

definition hour_transactions :: "(nat \<times> row) list \<Rightarrow> int \<Rightarrow> nat list" where
  "hour_transactions user_transactions h =
     map fst (filter (\<lambda>ir. floor_hour (timestamp (snd ir)) = h) user_transactions)"

definition daily_amount :: "(nat \<times> row) list \<Rightarrow> int \<Rightarrow> real" where
  "daily_amount user_transactions d =
     sum_list (map (\<lambda>ir. amount (snd ir))
       (filter (\<lambda>ir. date_of (timestamp (snd ir)) = d) user_transactions))"

definition excessive_dates :: "settings \<Rightarrow> (nat \<times> row) list \<Rightarrow> int list" where
  "excessive_dates s user_transactions =
     filter (\<lambda>d. daily_amount user_transactions d > max_amount_per_day s)
       (sort (unique (map (\<lambda>ir. date_of (timestamp (snd ir))) user_transactions)))"

definition date_transactions :: "(nat \<times> row) list \<Rightarrow> int \<Rightarrow> nat list" where
  "date_transactions user_transactions d =
     map fst (filter (\<lambda>ir. date_of (timestamp (snd ir)) = d) user_transactions)"

text \<open>The body of the loop over the users, for a user with more than one row: the
  rapid-fire rule, the hourly count and the daily amount, one after the other.\<close>

definition flag_rapid :: "(nat \<times> row) list \<Rightarrow> frame \<Rightarrow> frame" where
  "flag_rapid user_transactions df =
     loc_add_at (rapid_indices user_transactions) 0.25 ''Rapid consecutive transactions, '' df"

definition flag_hourly :: "settings \<Rightarrow> (nat \<times> row) list \<Rightarrow> frame \<Rightarrow> frame" where
  "flag_hourly s user_transactions df =
     fold (\<lambda>h. loc_add_at (hour_transactions user_transactions h) 0.2
                 ''High hourly velocity, '')
       (excessive_hours s user_transactions) df"

definition flag_daily :: "settings \<Rightarrow> (nat \<times> row) list \<Rightarrow> frame \<Rightarrow> frame" where
  "flag_daily s user_transactions df =
     fold (\<lambda>d. loc_add_at (date_transactions user_transactions d) 0.15
                 ''High daily amount, '')
       (excessive_dates s user_transactions) df"

definition velocity_of_user :: "settings \<Rightarrow> (nat \<times> row) list \<Rightarrow> frame \<Rightarrow> frame" where
  "velocity_of_user s user_transactions df =
     flag_daily s user_transactions
       (flag_hourly s user_transactions (flag_rapid user_transactions df))"

definition check_velocity_patterns :: "settings \<Rightarrow> frame \<Rightarrow> frame" where
  "check_velocity_patterns s df =
     (let df_sorted = sort_values_timestamp df
      in fold (\<lambda>u d. let user_transactions = rows_of_user df_sorted u
                      in if length user_transactions > 1
                         then velocity_of_user s user_transactions d else d)
           (unique (map user_id df)) df)"

subsection \<open>Location rules\<close>

text \<open>\<^verbatim>\<open>location != location.shift(1)\<close>: pandas compares a missing value as different
  from everything, also from another missing value; the first row is compared with the
  missing value that \<^verbatim>\<open>shift\<close> puts before it.\<close>

definition ne_na :: "string option \<Rightarrow> string option \<Rightarrow> bool" where
  "ne_na a b = (a = None \<or> b = None \<or> a \<noteq> b)"

definition location_changed :: "(nat \<times> row) list \<Rightarrow> bool list" where
  "location_changed user_transactions =
     (let locs = map (\<lambda>ir. location (snd ir)) user_transactions
      in map (\<lambda>(a, b). ne_na a b) (zip locs (None # locs)))"

definition rapid_location_indices :: "(nat \<times> row) list \<Rightarrow> nat list" where
  "rapid_location_indices user_transactions =
     map (\<lambda>(ir, c, d). fst ir)
       (filter (\<lambda>(ir, c, d). c \<and> td_less d 3600)
         (zip user_transactions
           (zip (location_changed user_transactions) (time_diff user_transactions))))"

definition high_risk_keywords :: "string list" where
  "high_risk_keywords = [''unknown'', ''test'', ''temp'', ''null'', '''']"

definition check_location_patterns :: "frame \<Rightarrow> frame" where
  "check_location_patterns df =
     (let df_sorted = sort_values_timestamp df;
          df1 = fold (\<lambda>u d. let user_transactions = rows_of_user df_sorted u
                             in if length user_transactions > 1
                                then loc_add_at (rapid_location_indices user_transactions) 0.3
                                       ''Rapid location change, '' d
                                else d)
                  (unique (map user_id df)) df
      in fold (\<lambda>keyword. loc_add (\<lambda>r. str_lower_contains keyword (location r)) 0.1
                            ''High-risk location, '')
           high_risk_keywords df1)"

subsection \<open>Merchant rules\<close>

definition rare_merchants :: "frame \<Rightarrow> string list" where
  "rare_merchants df =
     map fst (filter (\<lambda>(m, n). n = 1) (value_counts (map merchant df)))"

definition rare_merchant_mask :: "frame \<Rightarrow> row \<Rightarrow> bool" where
  "rare_merchant_mask df r =
     (case merchant r of None \<Rightarrow> False | Some m \<Rightarrow> m \<in> set (rare_merchants df))"

definition high_risk_categories :: "string list" where
  "high_risk_categories = [''gambling'', ''adult'', ''cryptocurrency'', ''cash_advance'']"

definition suspicious_keywords :: "string list" where
  "suspicious_keywords = [''test'', ''temp'', ''fake'', ''dummy'']"

definition check_merchant_patterns :: "frame \<Rightarrow> frame" where
  "check_merchant_patterns df =
     (let df1 = loc_add (rare_merchant_mask df) 0.1 ''New/rare merchant, '' df;
          df2 = fold (\<lambda>category.
                        loc_add (\<lambda>r. str_lower_contains category (merchant_category r)) 0.15
                          (''High-risk category ('' @ category @ ''), ''))
                  high_risk_categories df1
      in fold (\<lambda>keyword. loc_add (\<lambda>r. str_lower_contains keyword (merchant r)) 0.2
                            ''Suspicious merchant name, '')
           suspicious_keywords df2)"

subsection \<open>The final score and the whole pass\<close>

definition calculate_final_score :: "settings \<Rightarrow> frame \<Rightarrow> frame" where
  "calculate_final_score s df =
     map (\<lambda>r. let capped = fl_minimum (risk_score r) (Fin 1.0)
               in r\<lparr>risk_score := capped,
                    is_fraud := fl_ge capped (Fin (high_risk_threshold s)),
                    fraud_reasons := rstrip_comma_space (fraud_reasons r)\<rparr>) df"

text \<open>The three columns are set anew on a copy of the frame, whatever the caller's
  frame held in them.\<close>

definition init_columns :: "frame \<Rightarrow> frame" where
  "init_columns transactions =
     map (\<lambda>r. r\<lparr>risk_score := Fin 0.0, is_fraud := False, fraud_reasons := ''''\<rparr>) transactions"

definition detect_fraud :: "settings \<Rightarrow> frame \<Rightarrow> frame" where
  "detect_fraud s transactions =
     calculate_final_score s
       (check_merchant_patterns
         (check_location_patterns
           (check_velocity_patterns s
             (check_time_patterns s
               (check_amount_anomalies s (init_columns transactions))))))"

section \<open>The single-transaction analyzer: TransactionAnalyzer\<close>

subsection \<open>Results\<close>

text \<open>The analyzed transaction is a row of a frame; \<^verbatim>\<open>str.lower\<close> of a missing text
  value raises AttributeError.\<close>

datatype py_error = AttributeError

text \<open>The risk factors are the messages of the source; a message that formats a value
  carries the value, not its rendering.\<close>

datatype factor =
    NewUserNoHistory
  | AmountHighlyUnusualForUser npfloat
  | AmountSomewhatUnusualForUser npfloat
  | VeryRecentTransaction
  | DailySpendingAboveAverage
  | AmountInTop1Percent real
  | AmountInTop5Percent real
  | MicroTransactionAmount real
  | RoundAmount real
  | RoundAmountToNearest10 real
  | StatisticalOutlier npfloat
  | OffHoursTransaction nat
  | WeekendTransaction
  | HolidayTransaction
  | UnusualHourForTransactions nat
  | NewLocationForUser
  | RarelyUsedLocationForUser
  | NewLocationGlobally
  | RarelyUsedLocationGlobally
  | SuspiciousLocationName
  | NewMerchantForUser
  | NewMerchantCategoryForUser
  | NewMerchantGlobally
  | RarelyUsedMerchant
  | HighRiskMerchantCategory string
  | SuspiciousMerchantName

text \<open>What a sub-analysis returns. Its third entry, the dictionary of details, is
  written and never read by the analyzer, and is left out.\<close>

record analysis =
  risk_contribution :: real
  factors :: "factor list"

definition no_risk :: analysis where
  "no_risk = \<lparr>risk_contribution = 0.0, factors = []\<rparr>"

text \<open>\<^verbatim>\<open>risk_contribution += c; factors.append(f)\<close>\<close>

definition add_factor :: "real \<Rightarrow> factor \<Rightarrow> analysis \<Rightarrow> analysis" where
  "add_factor c f a =
     \<lparr>risk_contribution = risk_contribution a + c, factors = factors a @ [f]\<rparr>"

record recommendation_rec =
  action :: string
  confidence :: string
  reasoning :: string
  risk_level :: string
  primary_concerns :: "factor list"

record analysis_result =
  result_risk_score :: real
  risk_factors :: "factor list"
  user_analysis :: analysis
  amount_analysis :: analysis
  temporal_analysis :: analysis
  location_analysis :: analysis
  merchant_analysis :: analysis
  recommendation :: recommendation_rec

text \<open>\<^verbatim>\<open>abs((amount - mean) / std)\<close>\<close>

definition z_score_of :: "real \<Rightarrow> npfloat \<Rightarrow> npfloat \<Rightarrow> npfloat" where
  "z_score_of amt avg sd = fl_abs (f64_div (f64_sub (Fin amt) avg) sd)"

text \<open>The count of a value in the result of \<^verbatim>\<open>value_counts\<close>; None when the value is
  not in its index (a missing value never is).\<close>

definition count_in :: "(string \<times> nat) list \<Rightarrow> string option \<Rightarrow> nat option" where
  "count_in counts v = (case v of None \<Rightarrow> None | Some x \<Rightarrow> map_of counts x)"

subsection \<open>User behaviour\<close>

text \<open>\<^verbatim>\<open>user_transactions.groupby(timestamp.dt.date)['amount'].sum()\<close>\<close>

definition daily_totals :: "frame \<Rightarrow> real list" where
  "daily_totals user_transactions =
     map (\<lambda>d. sum_list (map amount
                 (filter (\<lambda>r. date_of (timestamp r) = d) user_transactions)))
       (sort (unique (map (\<lambda>r. date_of (timestamp r)) user_transactions)))"

definition analyze_user_behavior :: "row \<Rightarrow> frame \<Rightarrow> analysis" where
  "analyze_user_behavior transaction historical_data =
     (let user_transactions =
            filter (\<lambda>r. user_id r = user_id transaction) historical_data
      in if length user_transactions = 0
         then add_factor 0.3 NewUserNoHistory no_risk
         else
           let avg_amount = mean (map amount user_transactions);
               std_amount = std (map amount user_transactions);
               a1 = (if fl_greater std_amount (Fin 0)
                     then let z_score = z_score_of (amount transaction) avg_amount std_amount
                          in if fl_greater z_score (Fin 3)
                             then add_factor 0.25 (AmountHighlyUnusualForUser z_score) no_risk
                             else if fl_greater z_score (Fin 2)
                             then add_factor 0.15 (AmountSomewhatUnusualForUser z_score) no_risk
                             else no_risk
                     else no_risk);
               last_transaction = Max (set (map timestamp user_transactions));
               time_since_last = timestamp transaction - last_transaction;
               a2 = (if time_since_last < 5 * 60
                     then add_factor 0.2 VeryRecentTransaction a1 else a1);
               recent_transactions =
                 filter (\<lambda>r. timestamp r > timestamp transaction - 86400) user_transactions
           in if length recent_transactions > 0
              then let daily_spending =
                         sum_list (map amount recent_transactions) + amount transaction;
                       avg_daily_spending = mean (daily_totals user_transactions)
                   in if fl_greater (Fin daily_spending) (fl_mul avg_daily_spending (Fin 3))
                      then add_factor 0.2 DailySpendingAboveAverage a2 else a2
              else a2)"

subsection \<open>Amount\<close>

definition analyze_amount_patterns :: "row \<Rightarrow> frame \<Rightarrow> analysis" where
  "analyze_amount_patterns transaction historical_data =
     (let amt = amount transaction;
          amounts = map amount historical_data;
          stats_mean = mean amounts;
          stats_std = std amounts;
          q95 = quantile amounts 0.95;
          q99 = quantile amounts 0.99;
          a1 = (if fl_greater (Fin amt) q99 then add_factor 0.3 (AmountInTop1Percent amt) no_risk
                else if fl_greater (Fin amt) q95
                then add_factor 0.15 (AmountInTop5Percent amt) no_risk
                else no_risk);
          a2 = (if amt < 1.0 then add_factor 0.15 (MicroTransactionAmount amt) a1 else a1);
          a3 = (if amt \<ge> 100 \<and> py_mod amt 100 = 0 then add_factor 0.1 (RoundAmount amt) a2
                else if amt \<ge> 10 \<and> py_mod amt 10 = 0
                then add_factor 0.05 (RoundAmountToNearest10 amt) a2
                else a2)
      in if fl_greater stats_std (Fin 0)
         then let z_score = z_score_of amt stats_mean stats_std
              in if fl_greater z_score (Fin 3)
                 then add_factor 0.2 (StatisticalOutlier z_score) a3 else a3
         else a3)"

subsection \<open>Time\<close>

definition analyze_temporal_patterns :: "row \<Rightarrow> frame \<Rightarrow> analysis" where
  "analyze_temporal_patterns transaction historical_data =
     (let ts = timestamp transaction;
          hour = hour_of ts;
          day_of_week = dayofweek ts;
          a1 = (if hour \<ge> 22 \<or> hour \<le> 6
                then add_factor 0.15 (OffHoursTransaction hour) no_risk else no_risk);
          a2 = (if day_of_week \<ge> 5 then add_factor 0.05 WeekendTransaction a1 else a1);
          a3 = (if (month_of ts = 1 \<and> day_of ts = 1) \<or> (month_of ts = 12 \<and> day_of ts = 25)
                then add_factor 0.1 HolidayTransaction a2 else a2);
          hour_transactions = filter (\<lambda>r. hour_of (timestamp r) = hour) historical_data
      in if real (length hour_transactions) < real (length historical_data) * 0.01
         then add_factor 0.1 (UnusualHourForTransactions (length hour_transactions)) a3
         else a3)"

subsection \<open>Location\<close>

definition suspicious_location_keywords :: "string list" where
  "suspicious_location_keywords = [''test'', ''temp'', ''fake'', ''unknown'', ''null'', '''']"

text \<open>\<^verbatim>\<open>any(keyword.lower() in text.lower() for keyword in keywords)\<close>\<close>

definition any_keyword_in :: "string list \<Rightarrow> string \<Rightarrow> bool" where
  "any_keyword_in keywords s = list_ex (\<lambda>keyword. is_substr (lower keyword) (lower s)) keywords"

definition analyze_location_patterns :: "row \<Rightarrow> frame \<Rightarrow> py_error + analysis" where
  "analyze_location_patterns transaction historical_data =
     (let user_transactions =
            filter (\<lambda>r. user_id r = user_id transaction) historical_data;
          user_locations = value_counts (map location user_transactions);
          a1 = (if length user_locations > 0
                then (case count_in user_locations (location transaction) of
                        None \<Rightarrow> add_factor 0.2 NewLocationForUser no_risk
                      | Some n \<Rightarrow>
                          if n = 1 then add_factor 0.1 RarelyUsedLocationForUser no_risk
                          else no_risk)
                else no_risk);
          global_locations = value_counts (map location historical_data);
          a2 = (case count_in global_locations (location transaction) of
                  None \<Rightarrow> add_factor 0.15 NewLocationGlobally a1
                | Some n \<Rightarrow>
                    if n < 5 then add_factor 0.1 RarelyUsedLocationGlobally a1 else a1)
      in case location transaction of
           None \<Rightarrow> Inl AttributeError
         | Some loc \<Rightarrow>
             Inr (if any_keyword_in suspicious_location_keywords loc
                  then add_factor 0.25 SuspiciousLocationName a2 else a2))"

subsection \<open>Merchant\<close>

definition single_high_risk_categories :: "string list" where
  "single_high_risk_categories =
     [''gambling'', ''adult'', ''cryptocurrency'', ''cash advance'', ''money transfer'']"

definition suspicious_merchant_keywords :: "string list" where
  "suspicious_merchant_keywords = [''test'', ''temp'', ''fake'', ''unknown'', ''null'']"

definition analyze_merchant_patterns :: "row \<Rightarrow> frame \<Rightarrow> py_error + analysis" where
  "analyze_merchant_patterns transaction historical_data =
     (let user_transactions =
            filter (\<lambda>r. user_id r = user_id transaction) historical_data;
          user_merchants = value_counts (map merchant user_transactions);
          user_categories = value_counts (map merchant_category user_transactions);
          a1 = (if length user_merchants > 0
                then let b = (if count_in user_merchants (merchant transaction) = None
                              then add_factor 0.1 NewMerchantForUser no_risk else no_risk)
                     in if count_in user_categories (merchant_category transaction) = None
                        then add_factor 0.15 NewMerchantCategoryForUser b else b
                else no_risk);
          global_merchants = value_counts (map merchant historical_data);
          a2 = (case count_in global_merchants (merchant transaction) of
                  None \<Rightarrow> add_factor 0.15 NewMerchantGlobally a1
                | Some n \<Rightarrow> if n < 5 then add_factor 0.1 RarelyUsedMerchant a1 else a1)
      in case merchant_category transaction of
           None \<Rightarrow> Inl AttributeError
         | Some cat \<Rightarrow>
             let a3 = (if any_keyword_in single_high_risk_categories cat
                       then add_factor 0.2 (HighRiskMerchantCategory cat) a2 else a2)
             in case merchant transaction of
                  None \<Rightarrow> Inl AttributeError
                | Some m \<Rightarrow>
                    Inr (if any_keyword_in suspicious_merchant_keywords m
                         then add_factor 0.25 SuspiciousMerchantName a3 else a3))"

subsection \<open>Recommendation and the whole analysis\<close>

definition get_risk_level :: "real \<Rightarrow> string" where
  "get_risk_level score =
     (if score \<ge> 0.7 then ''HIGH''
      else if score \<ge> 0.4 then ''MEDIUM''
      else if score \<ge> 0.2 then ''LOW''
      else ''VERY LOW'')"

definition get_recommendation :: "real \<Rightarrow> factor list \<Rightarrow> recommendation_rec" where
  "get_recommendation score fs =
     (let (act, conf, reason) =
            (if score \<ge> 0.8
             then (''BLOCK'', ''HIGH'', ''Multiple high-risk indicators detected'')
             else if score \<ge> 0.6
             then (''REVIEW'', ''MEDIUM'',
                   ''Several risk factors present, manual review recommended'')
             else if score \<ge> 0.3
             then (''MONITOR'', ''LOW'', ''Some risk factors present, continue monitoring'')
             else (''APPROVE'', ''HIGH'', ''Low risk transaction''))
      in \<lparr>action = act, confidence = conf, reasoning = reason,
          risk_level = get_risk_level score,
          primary_concerns = (if fs \<noteq> [] then take 3 fs else [])\<rparr>)"

definition analyze_single_transaction :: "row \<Rightarrow> frame \<Rightarrow> py_error + analysis_result" where
  "analyze_single_transaction transaction historical_data =
     (let ua = analyze_user_behavior transaction historical_data;
          aa = analyze_amount_patterns transaction historical_data;
          ta = analyze_temporal_patterns transaction historical_data
      in case analyze_location_patterns transaction historical_data of
           Inl e \<Rightarrow> Inl e
         | Inr la \<Rightarrow>
             (case analyze_merchant_patterns transaction historical_data of
                Inl e \<Rightarrow> Inl e
              | Inr ma \<Rightarrow>
                  let total = 0.0 + risk_contribution ua + risk_contribution aa
                              + risk_contribution ta + risk_contribution la
                              + risk_contribution ma;
                      fs = factors ua @ factors aa @ factors ta @ factors la @ factors ma;
                      capped = min total 1.0
                  in Inr \<lparr>result_risk_score = capped, risk_factors = fs,
                          user_analysis = ua, amount_analysis = aa, temporal_analysis = ta,
                          location_analysis = la, merchant_analysis = ma,
                          recommendation = get_recommendation capped fs\<rparr>))"

section \<open>Notions used in the statements\<close>

text \<open>A score that is a finite, non-negative number.\<close>

fun finite_nonneg :: "npfloat \<Rightarrow> bool" where
  "finite_nonneg (Fin x) = (0 \<le> x)"
| "finite_nonneg _ = False"

definition scores_nonneg :: "frame \<Rightarrow> bool" where
  "scores_nonneg df = list_all (\<lambda>r. finite_nonneg (risk_score r)) df"

text \<open>The transaction columns of a row: the row with the three scoring columns blanked.\<close>

definition transaction_columns :: "row \<Rightarrow> row" where
  "transaction_columns r = r\<lparr>risk_score := Fin 0, is_fraud := False, fraud_reasons := ''''\<rparr>"

text \<open>One row is another with a score that has not decreased: the transaction columns agree,
  and a finite score stays finite and does not go down.\<close>

definition score_grown :: "row \<Rightarrow> row \<Rightarrow> bool" where
  "score_grown r r' =
     (transaction_columns r' = transaction_columns r \<and>
      (case risk_score r of
         Fin x \<Rightarrow> (case risk_score r' of Fin y \<Rightarrow> x \<le> y | _ \<Rightarrow> False)
       | _ \<Rightarrow> True))"

text \<open>Two frames hold the same transactions, row by row.\<close>

definition same_transactions :: "frame \<Rightarrow> frame \<Rightarrow> bool" where
  "same_transactions df df' = (map transaction_columns df' = map transaction_columns df)"

text \<open>Row by row, the scores of a frame have not decreased.\<close>

definition frame_grown :: "frame \<Rightarrow> frame \<Rightarrow> bool" where
  "frame_grown df df' = list_all2 score_grown df df'"

text \<open>The frame before the last keyword of the location check is tried.\<close>

definition before_empty_keyword :: "frame \<Rightarrow> frame" where
  "before_empty_keyword df =
     (let df_sorted = sort_values_timestamp df;
          df1 = fold (\<lambda>u d. let user_transactions = rows_of_user df_sorted u
                             in if length user_transactions > 1
                                then loc_add_at (rapid_location_indices user_transactions) 0.3
                                       ''Rapid location change, '' d
                                else d)
                  (unique (map user_id df)) df
      in fold (\<lambda>keyword. loc_add (\<lambda>r. str_lower_contains keyword (location r)) 0.1
                            ''High-risk location, '')
           [''unknown'', ''test'', ''temp'', ''null''] df1)"

text \<open>The update that names no setting.\<close>

definition empty_update :: settings_update where
  "empty_update =
     \<lparr>new_high_risk_threshold = None, new_medium_risk_threshold = None,
      new_unusual_amount_threshold = None, new_micro_transaction_threshold = None,
      new_off_hours_start = None, new_off_hours_end = None,
      new_max_transactions_per_hour = None, new_max_amount_per_day = None\<rparr>"

subsection \<open>Example data\<close>

text \<open>Two transactions of user U1 with the same amount, thirty seconds apart, on Tuesday
  2023-11-14 at 22:13:20 and 22:13:50.\<close>

definition example_tx1 :: row where
  "example_tx1 =
     \<lparr>transaction_id = ''T1'', amount = 50, merchant = Some ''Cafe'',
      location = Some ''Paris'', timestamp = 1700000000, user_id = ''U1'',
      card_type = ''visa'', merchant_category = Some ''food'',
      risk_score = Fin 0, is_fraud = False, fraud_reasons = ''''\<rparr>"

definition example_tx2 :: row where
  "example_tx2 = example_tx1\<lparr>transaction_id := ''T2'', timestamp := 1700000030\<rparr>"

text \<open>Three transactions of three users on Wednesday 2023-11-15 at 12:13:20, each with
  the amount 1e-165, that is the double \<open>8299031137761986 * 2 powi (- 601)\<close>.\<close>

definition tiny_unit :: real where
  "tiny_unit = 2 powi (- 601)"

definition tiny_amount :: real where
  "tiny_amount = 8299031137761986 * tiny_unit"

definition tiny_tx1 :: row where
  "tiny_tx1 = example_tx1\<lparr>amount := tiny_amount, timestamp := 1700050400\<rparr>"

definition tiny_tx2 :: row where
  "tiny_tx2 = tiny_tx1\<lparr>transaction_id := ''T2'', user_id := ''U2''\<rparr>"

definition tiny_tx3 :: row where
  "tiny_tx3 = tiny_tx1\<lparr>transaction_id := ''T3'', user_id := ''U3''\<rparr>"

text \<open>Three transactions at 23:13:20 on Tuesday 2023-11-14 and at 02:13:20 and
  12:13:20 on the Wednesday after.\<close>

definition hour23_tx :: row where
  "hour23_tx = example_tx1\<lparr>timestamp := 1700003600\<rparr>"

definition hour2_tx :: row where
  "hour2_tx = example_tx1\<lparr>transaction_id := ''T2'', timestamp := 1700014400\<rparr>"

definition hour12_tx :: row where
  "hour12_tx = example_tx1\<lparr>transaction_id := ''T3'', timestamp := 1700050400\<rparr>"

section \<open>Scores stay finite and non-negative\<close>

lemma bump_nonneg:
  "0 \<le> c \<Longrightarrow> finite_nonneg (risk_score r) \<Longrightarrow> finite_nonneg (risk_score (bump c l r))"
  by (cases "risk_score r") (simp_all add: bump_def)

lemma fold_nonneg:
  assumes "\<And>x d. scores_nonneg d \<Longrightarrow> scores_nonneg (f x d)" and "scores_nonneg d"
  shows "scores_nonneg (fold f xs d)"
  using assms(2) by (induction xs arbitrary: d) (simp_all add: assms(1))

lemma loc_add_nonneg:
  "0 \<le> c \<Longrightarrow> scores_nonneg df \<Longrightarrow> scores_nonneg (loc_add m c l df)"
  by (induction df) (simp_all add: scores_nonneg_def loc_add_def bump_nonneg)

lemma in_enumerate_snd: "(i, r) \<in> set (enumerate n xs) \<Longrightarrow> r \<in> set xs"
  by (auto simp: in_set_enumerate_eq)

lemma loc_add_at_nonneg:
  assumes "0 \<le> c" and "scores_nonneg df"
  shows "scores_nonneg (loc_add_at idx c l df)"
  using assms
  by (auto simp: scores_nonneg_def loc_add_at_def list_all_iff bump_nonneg
      dest: in_enumerate_snd)

lemma check_amount_anomalies_nonneg:
  "scores_nonneg df \<Longrightarrow> scores_nonneg (check_amount_anomalies s df)"
  by (simp add: check_amount_anomalies_def loc_add_nonneg)

lemma check_time_patterns_nonneg:
  "scores_nonneg df \<Longrightarrow> scores_nonneg (check_time_patterns s df)"
  by (simp add: check_time_patterns_def loc_add_nonneg)

lemma velocity_of_user_nonneg:
  "scores_nonneg df \<Longrightarrow> scores_nonneg (velocity_of_user s ut df)"
  unfolding velocity_of_user_def flag_daily_def flag_hourly_def flag_rapid_def
  by (intro fold_nonneg loc_add_at_nonneg) simp_all

lemma check_velocity_patterns_nonneg:
  "scores_nonneg df \<Longrightarrow> scores_nonneg (check_velocity_patterns s df)"
  unfolding check_velocity_patterns_def Let_def
  by (rule fold_nonneg) (simp_all add: velocity_of_user_nonneg)

lemma check_location_patterns_nonneg:
  "scores_nonneg df \<Longrightarrow> scores_nonneg (check_location_patterns df)"
  unfolding check_location_patterns_def Let_def
  by (intro fold_nonneg loc_add_nonneg) (simp_all add: loc_add_at_nonneg)

lemma check_merchant_patterns_nonneg:
  "scores_nonneg df \<Longrightarrow> scores_nonneg (check_merchant_patterns df)"
  unfolding check_merchant_patterns_def Let_def
  by (intro fold_nonneg loc_add_nonneg) simp_all

lemma init_columns_nonneg: "scores_nonneg (init_columns df)"
  by (simp add: scores_nonneg_def init_columns_def list_all_iff)

lemma rules_nonneg:
  "scores_nonneg (check_merchant_patterns (check_location_patterns (check_velocity_patterns s
     (check_time_patterns s (check_amount_anomalies s (init_columns df))))))"
  by (intro check_merchant_patterns_nonneg check_location_patterns_nonneg
      check_velocity_patterns_nonneg check_time_patterns_nonneg check_amount_anomalies_nonneg
      init_columns_nonneg)

lemma calculate_final_score_row:
  assumes "scores_nonneg df" and "r \<in> set (calculate_final_score s df)"
  shows "\<exists>x. risk_score r = Fin x \<and> 0 \<le> x \<and> x \<le> 1 \<and>
             is_fraud r = (high_risk_threshold s \<le> x)"
proof -
  from assms(2) obtain r0 where r0: "r0 \<in> set df"
    and r: "risk_score r = fl_minimum (risk_score r0) (Fin 1)"
    and f: "is_fraud r = fl_ge (fl_minimum (risk_score r0) (Fin 1)) (Fin (high_risk_threshold s))"
    by (auto simp: calculate_final_score_def Let_def)
  from assms(1) r0 obtain x where "risk_score r0 = Fin x" "0 \<le> x"
    by (cases "risk_score r0") (auto simp: scores_nonneg_def list_all_iff)
  with r f show ?thesis by auto
qed

lemma detect_fraud_row:
  assumes "r \<in> set (detect_fraud s transactions)"
  shows "\<exists>x. risk_score r = Fin x \<and> 0 \<le> x \<and> x \<le> 1 \<and>
             is_fraud r = (high_risk_threshold s \<le> x)"
  using assms unfolding detect_fraud_def
  by (rule calculate_final_score_row [OF rules_nonneg])

section \<open>Contributions of the single-transaction analyzer are non-negative\<close>

lemma no_risk_nonneg: "0 \<le> risk_contribution no_risk"
  by (simp add: no_risk_def)

lemma add_factor_nonneg:
  "0 \<le> c \<Longrightarrow> 0 \<le> risk_contribution a \<Longrightarrow> 0 \<le> risk_contribution (add_factor c f a)"
  by (simp add: add_factor_def)

lemma analyze_user_behavior_nonneg: "0 \<le> risk_contribution (analyze_user_behavior t h)"
  by (simp add: analyze_user_behavior_def Let_def no_risk_nonneg add_factor_nonneg)

lemma analyze_amount_patterns_nonneg: "0 \<le> risk_contribution (analyze_amount_patterns t h)"
  by (simp add: analyze_amount_patterns_def Let_def no_risk_nonneg add_factor_nonneg)

lemma analyze_temporal_patterns_nonneg:
  "0 \<le> risk_contribution (analyze_temporal_patterns t h)"
  by (simp add: analyze_temporal_patterns_def Let_def no_risk_nonneg add_factor_nonneg)

lemma analyze_location_patterns_nonneg:
  "analyze_location_patterns t h = Inr a \<Longrightarrow> 0 \<le> risk_contribution a"
  by (auto simp: analyze_location_patterns_def Let_def no_risk_nonneg add_factor_nonneg
      split: option.splits if_splits)

lemma analyze_merchant_patterns_nonneg:
  "analyze_merchant_patterns t h = Inr a \<Longrightarrow> 0 \<le> risk_contribution a"
  by (auto simp: analyze_merchant_patterns_def Let_def no_risk_nonneg add_factor_nonneg
      split: option.splits if_splits)

section \<open>Rounding to double precision\<close>

lemma round_half_even_near: "\<bar>of_int (round_half_even x) - x\<bar> \<le> 1 / 2"
  unfolding round_half_even_def Let_def by (auto simp: abs_le_iff)

lemma round_half_even_of_int [simp]: "round_half_even (of_int n) = n"
  by (simp add: round_half_even_def)

lemma round_half_even_small:
  assumes "\<bar>t\<bar> < 1 / 2"
  shows "round_half_even t = 0"
proof (cases "0 \<le> t")
  case True
  with assms have "\<lfloor>t\<rfloor> = 0" by (simp add: floor_eq_iff)
  with assms True show ?thesis by (simp add: round_half_even_def)
next
  case False
  with assms have "\<lfloor>t\<rfloor> = - 1" by (simp add: floor_eq_iff)
  with assms False show ?thesis by (simp add: round_half_even_def)
qed

lemma two_powr_int: "(2::real) powr real_of_int k = 2 powi k"
  by (rule powr_real_of_int') simp_all

lemma floor_log2_between:
  assumes "2 powi e \<le> x" and "x < 2 powi (e + 1)"
  shows "\<lfloor>log 2 x\<rfloor> = e"
proof -
  have pos: "0 < x"
    using assms(1) by (rule less_le_trans [rotated]) simp
  have up: "real_of_int e + 1 = real_of_int (e + 1)" by simp
  have "(2::real) powr real_of_int e \<le> x \<and> x < 2 powr (real_of_int e + 1)"
    unfolding up two_powr_int using assms by simp
  with floor_log_eq_powr_iff [OF pos, of 2 e] show ?thesis by simp
qed

lemma floor_log2_normal:
  assumes "2 ^ 52 \<le> \<bar>r\<bar>" and "\<bar>r\<bar> < 2 ^ 53"
  shows "\<lfloor>log 2 \<bar>r * 2 powi k\<bar>\<rfloor> = k + 52"
proof (rule floor_log2_between)
  have p: "(0::real) < 2 powi k" by simp
  have "(2::real) powi (k + 52) = 2 ^ 52 * 2 powi k"
    by (simp add: power_int_add)
  also have "\<dots> \<le> \<bar>r\<bar> * 2 powi k"
    using assms(1) p by (simp only: mult_le_cancel_right_pos)
  finally show "2 powi (k + 52) \<le> \<bar>r * 2 powi k\<bar>" by (simp add: abs_mult)
  have "\<bar>r\<bar> * 2 powi k < 2 ^ 53 * 2 powi k"
    using assms(2) p by (simp only: mult_less_cancel_right_pos)
  also have "\<dots> = (2::real) powi (k + 52 + 1)"
    by (simp add: power_int_add)
  finally show "\<bar>r * 2 powi k\<bar> < 2 powi (k + 52 + 1)" by (simp add: abs_mult)
qed

lemma to_double_normal:
  assumes "2 ^ 52 \<le> \<bar>r\<bar>" and "\<bar>r\<bar> < 2 ^ 53" and "- 1074 \<le> k" and "k \<le> 970"
  shows "to_double (r * 2 powi k) = Fin (of_int (round_half_even r) * 2 powi k)"
proof -
  have nz: "r * 2 powi k \<noteq> 0" using assms(1) by auto
  have e: "double_exponent (r * 2 powi k) = k + 52"
    using assms(3) by (simp add: double_exponent_def floor_log2_normal [OF assms(1,2)])
  have "\<bar>real_of_int (round_half_even r)\<bar> \<le> \<bar>r\<bar> + 1 / 2"
    using round_half_even_near [of r] by linarith
  with assms(2) have n: "\<bar>real_of_int (round_half_even r)\<bar> < 2 ^ 54" by simp
  have "(2::real) powi k \<le> 2 powi 970"
    using assms(4) by (intro power_int_increasing) simp_all
  with n have "\<bar>real_of_int (round_half_even r)\<bar> * 2 powi k < 2 ^ 54 * 2 powi 970"
    by (intro mult_less_le_imp_less) simp_all
  also have "(2::real) ^ 54 * 2 powi 970 = 2 powi 1024"
    by simp
  finally have small: "\<bar>real_of_int (round_half_even r) * 2 powi k\<bar> < 2 powi 1024"
    by (simp add: abs_mult)
  have q: "r * 2 powi k / 2 powi k = r" by simp
  show ?thesis
    using nz small by (simp add: to_double_def e q Let_def del: power_int_numeral)
qed

lemma to_double_underflow:
  assumes "\<bar>x\<bar> < 2 powi (- 1075)"
  shows "to_double x = Fin 0"
proof (cases "x = 0")
  case True
  then show ?thesis by (simp add: to_double_def)
next
  case False
  then have pos: "0 < \<bar>x\<bar>" by simp
  have "log 2 \<bar>x\<bar> < real_of_int (- 1075)"
    unfolding log_less_iff [OF _ pos, of 2, simplified] two_powr_int using assms .
  then have "\<lfloor>log 2 \<bar>x\<bar>\<rfloor> < - 1022" by linarith
  then have e: "double_exponent x = - 1022" by (simp add: double_exponent_def)
  define u :: real where "u = 2 powi (- 1075)"
  have upos: "0 < u" by (simp add: u_def)
  have q: "(2::real) powi (- 1022 - 52) = 2 * u"
    unfolding u_def using power_int_add [of "2::real" 1 "- 1075"] by simp
  from assms have "\<bar>x\<bar> < u" by (simp add: u_def)
  with upos have ratio: "\<bar>x / (2 * u)\<bar> < 1 / 2"
    by (simp add: field_simps)
  then have "round_half_even (x / (2 * u)) = 0"
    by (rule round_half_even_small)
  then show ?thesis
    using False by (simp only: to_double_def e q Let_def) simp
qed

lemma round_half_even_numeral [simp]: "round_half_even (numeral n) = numeral n"
  using round_half_even_of_int [of "numeral n"] by simp

lemma round_half_even_neg_numeral [simp]: "round_half_even (- numeral n) = - numeral n"
  using round_half_even_of_int [of "- numeral n"] by simp

lemma to_double_zero [simp]: "to_double 0 = Fin 0"
  by (simp add: to_double_def)

lemma to_double_eval:
  assumes "x = r * 2 powi k" and "2 ^ 52 \<le> \<bar>r\<bar>" and "\<bar>r\<bar> < 2 ^ 53"
    and "- 1074 \<le> k" and "k \<le> 970"
    and "round_half_even r = n" and "of_int n * 2 powi k = y"
  shows "to_double x = Fin y"
  using to_double_normal [OF assms(2-5)] assms(1,6,7) by simp

lemma tiny_unit_pos: "0 < tiny_unit"
  by (simp add: tiny_unit_def)

lemma tiny_unit_scaled:
  "2 * tiny_unit = 2 powi (- 600)" "4 * tiny_unit = 2 powi (- 599)"
  "tiny_unit = 2 ^ 52 * 2 powi (- 653)"
  unfolding tiny_unit_def
  using power_int_add [of "2::real" 1 "- 601"] power_int_add [of "2::real" 2 "- 601"]
    power_int_add [of "2::real" 52 "- 653"]
  by simp_all

lemma to_double_one_unit:
  "to_double tiny_unit = Fin tiny_unit" "to_double (- tiny_unit) = Fin (- tiny_unit)"
proof -
  show "to_double tiny_unit = Fin tiny_unit"
  proof (rule to_double_eval)
    show "tiny_unit = 2 ^ 52 * 2 powi (- 653)" by (rule tiny_unit_scaled)
    show "round_half_even (2 ^ 52) = 4503599627370496" by simp
    show "real_of_int 4503599627370496 * 2 powi (- 653) = tiny_unit"
      using tiny_unit_scaled(3) by simp
  qed simp_all
  show "to_double (- tiny_unit) = Fin (- tiny_unit)"
  proof (rule to_double_eval)
    show "- tiny_unit = - (2 ^ 52) * 2 powi (- 653)"
      using tiny_unit_scaled(3) by simp
    show "round_half_even (- (2 ^ 52)) = - 4503599627370496" by simp
    show "real_of_int (- 4503599627370496) * 2 powi (- 653) = - tiny_unit"
      using tiny_unit_scaled(3) by simp
  qed simp_all
qed

lemma to_double_unit_squared: "to_double (tiny_unit * tiny_unit) = Fin 0"
proof (rule to_double_underflow)
  have "tiny_unit * tiny_unit = 2 powi (- 1202)"
    unfolding tiny_unit_def using power_int_add [of "2::real" "- 601" "- 601"] by simp
  moreover have "(2::real) powi (- 1202) < 2 powi (- 1075)"
    by (intro power_int_strict_increasing) simp_all
  ultimately show "\<bar>tiny_unit * tiny_unit\<bar> < 2 powi (- 1075)"
    by simp
qed

lemma tiny_sum: "f64_sum (map Fin [tiny_amount, tiny_amount, tiny_amount]) =
    Fin (24897093413285960 * tiny_unit)"
proof -
  have s1: "to_double tiny_amount = Fin tiny_amount"
  proof (rule to_double_eval)
    show "tiny_amount = 8299031137761986 * 2 powi (- 601)"
      by (simp only: tiny_amount_def tiny_unit_def)
    show "round_half_even 8299031137761986 = 8299031137761986" by simp
    show "real_of_int 8299031137761986 * 2 powi (- 601) = tiny_amount"
      by (simp add: tiny_amount_def tiny_unit_def)
  qed simp_all
  have s2: "to_double (tiny_amount + tiny_amount) = Fin (16598062275523972 * tiny_unit)"
  proof (rule to_double_eval)
    show "tiny_amount + tiny_amount = 8299031137761986 * 2 powi (- 600)"
      unfolding tiny_amount_def tiny_unit_scaled(1) [symmetric] by simp
    show "round_half_even 8299031137761986 = 8299031137761986" by simp
    show "real_of_int 8299031137761986 * 2 powi (- 600) = 16598062275523972 * tiny_unit"
      unfolding tiny_unit_scaled(1) [symmetric] by simp
  qed simp_all
  have s3: "to_double (16598062275523972 * tiny_unit + tiny_amount) =
      Fin (24897093413285960 * tiny_unit)"
  proof (rule to_double_eval)
    show "16598062275523972 * tiny_unit + tiny_amount =
        (24897093413285958 / 4) * 2 powi (- 599)"
      unfolding tiny_amount_def tiny_unit_scaled(2) [symmetric] by simp
    show "round_half_even (24897093413285958 / 4) = 6224273353321490"
      by (simp add: round_half_even_def)
    show "real_of_int 6224273353321490 * 2 powi (- 599) = 24897093413285960 * tiny_unit"
      unfolding tiny_unit_scaled(2) [symmetric] by simp
  qed simp_all
  have a1: "f64_add (Fin 0) (Fin tiny_amount) = Fin tiny_amount"
    using s1 by (simp add: f64_add_def)
  have a2: "f64_add (Fin tiny_amount) (Fin tiny_amount) = Fin (16598062275523972 * tiny_unit)"
    using s2 by (simp add: f64_add_def)
  have a3: "f64_add (Fin (16598062275523972 * tiny_unit)) (Fin tiny_amount) =
      Fin (24897093413285960 * tiny_unit)"
    using s3 by (simp add: f64_add_def)
  show ?thesis
    by (simp add: f64_sum_def a1 a2 a3)
qed

lemma tiny_mean: "mean [tiny_amount, tiny_amount, tiny_amount] = Fin (8299031137761987 * tiny_unit)"
proof -
  have "to_double (24897093413285960 * tiny_unit / 3) = Fin (8299031137761987 * tiny_unit)"
  proof (rule to_double_eval)
    show "24897093413285960 * tiny_unit / 3 = (24897093413285960 / 3) * 2 powi (- 601)"
      by (simp add: tiny_unit_def)
    show "round_half_even (24897093413285960 / 3) = 8299031137761987"
      by (simp add: round_half_even_def)
    show "real_of_int 8299031137761987 * 2 powi (- 601) = 8299031137761987 * tiny_unit"
      by (simp add: tiny_unit_def)
  qed simp_all
  then show ?thesis
    using tiny_sum by (simp add: mean_def f64_div_def)
qed

lemma tiny_deviation:
  "f64_sub (Fin (8299031137761987 * tiny_unit)) (Fin tiny_amount) = Fin tiny_unit"
  "f64_sub (Fin tiny_amount) (Fin (8299031137761987 * tiny_unit)) = Fin (- tiny_unit)"
proof -
  have "8299031137761987 * tiny_unit - tiny_amount = tiny_unit"
    "tiny_amount - 8299031137761987 * tiny_unit = - tiny_unit"
    by (simp_all add: tiny_amount_def algebra_simps)
  then have "to_double (8299031137761987 * tiny_unit - tiny_amount) = Fin tiny_unit"
    "to_double (tiny_amount - 8299031137761987 * tiny_unit) = Fin (- tiny_unit)"
    by (simp_all only: to_double_one_unit)
  then show "f64_sub (Fin (8299031137761987 * tiny_unit)) (Fin tiny_amount) = Fin tiny_unit"
    "f64_sub (Fin tiny_amount) (Fin (8299031137761987 * tiny_unit)) = Fin (- tiny_unit)"
    by (simp_all add: f64_sub_def fl_sub_def)
qed

lemma tiny_std: "std [tiny_amount, tiny_amount, tiny_amount] = Fin 0"
proof -
  have avg: "f64_div (f64_sum (map Fin [tiny_amount, tiny_amount, tiny_amount])) (Fin 3) =
      Fin (8299031137761987 * tiny_unit)"
    using tiny_mean by (simp add: mean_def)
  have sq: "f64_mul (Fin tiny_unit) (Fin tiny_unit) = Fin 0"
    by (simp add: f64_mul_def to_double_unit_squared)
  have zero: "f64_add (Fin 0) (Fin 0) = Fin 0" "f64_div (Fin 0) (Fin 2) = Fin 0"
    by (simp_all add: f64_add_def f64_div_def)
  have "std [tiny_amount, tiny_amount, tiny_amount] =
      f64_sqrt (f64_div (f64_sum [Fin 0, Fin 0, Fin 0]) (Fin 2))"
    using avg by (simp add: std_def Let_def tiny_deviation sq)
  then show ?thesis
    by (simp add: f64_sum_def zero)
qed

lemma tiny_z_score:
  "f64_div (f64_sub (Fin tiny_amount) (mean [tiny_amount, tiny_amount, tiny_amount]))
     (std [tiny_amount, tiny_amount, tiny_amount]) = NInf"
  using tiny_unit_pos by (simp add: tiny_mean tiny_std tiny_deviation f64_div_def)

lemma to_double_fifty: "to_double 50 = Fin 50" "to_double 100 = Fin 100"
proof -
  show "to_double 50 = Fin 50"
    by (rule to_double_eval [where r = "50 * 2 ^ 47" and k = "- 47"]) simp_all
  show "to_double 100 = Fin 100"
    by (rule to_double_eval [where r = "100 * 2 ^ 46" and k = "- 46"]) simp_all
qed

lemma mean_of_examples:
  "mean [50] = Fin 50" "mean [100] = Fin 100" "mean [50, 50] = Fin 50"
  by (simp_all add: mean_def f64_sum_def f64_add_def f64_div_def to_double_fifty)

lemma std_of_examples: "std [x] = NaN" "std [50, 50] = Fin 0"
  by (simp_all add: std_def f64_sum_def f64_add_def f64_sub_def f64_mul_def f64_div_def
      fl_sub_def to_double_fifty Let_def)

lemma example_not_extreme:
  assumes "map amount df = [50, 50]" and "amount r = 50"
  shows "\<not> extreme_amounts df r"
  using assms
  by (simp add: extreme_amounts_def mean_of_examples std_of_examples f64_sub_def f64_div_def
      fl_sub_def fl_greater_def)

lemma tiny_amount_bounds: "0 < tiny_amount" "tiny_amount < 1"
  by (simp_all add: tiny_amount_def tiny_unit_def)

lemma tiny_extreme:
  assumes "map amount df = [tiny_amount, tiny_amount, tiny_amount]" and "amount r = tiny_amount"
  shows "extreme_amounts df r"
  using assms by (simp add: extreme_amounts_def tiny_z_score fl_greater_def)

section \<open>The examples, evaluated\<close>

lemmas batch_defs = detect_fraud_def init_columns_def check_amount_anomalies_def
  check_time_patterns_def check_velocity_patterns_def check_location_patterns_def
  check_merchant_patterns_def calculate_final_score_def loc_add_def loc_add_at_def bump_def
  large_amounts_def micro_amounts_def round_amounts_def off_hours_def
  weekend_transactions_def velocity_of_user_def flag_rapid_def flag_hourly_def flag_daily_def
  rows_of_user_def rapid_indices_def
  time_diff_def diff_def td_less_def excessive_hours_def hour_transactions_def
  daily_amount_def excessive_dates_def date_transactions_def sort_values_timestamp_def
  location_changed_def ne_na_def rapid_location_indices_def high_risk_keywords_def
  rare_merchants_def rare_merchant_mask_def value_counts_def high_risk_categories_def
  suspicious_keywords_def str_lower_contains_def lower_def lower_char_def
  rstrip_comma_space_def py_mod_def
  hour_of_def date_of_def dayofweek_def floor_hour_def default_settings_def
  enumerate_eq_zip Let_def

lemma detect_fraud_example:
  "detect_fraud (default_settings\<lparr>high_risk_threshold := t\<rparr>) [example_tx1, example_tx2] =
     [example_tx1\<lparr>risk_score := Fin (1 / 4), is_fraud := (t \<le> 1 / 4),
        fraud_reasons := ''Off-hours transaction, High-risk location''\<rparr>,
      example_tx2\<lparr>risk_score := Fin (1 / 2), is_fraud := (t \<le> 1 / 2),
        fraud_reasons :=
          ''Off-hours transaction, Rapid consecutive transactions, High-risk location''\<rparr>]"
  by (simp add: batch_defs example_not_extreme example_tx1_def example_tx2_def not_less)

lemma example_date: "date_of 1700000000 = 19675" "date_of 1700000030 = 19675"
  by (simp_all add: date_of_def)

lemma example_hour: "hour_of 1700000000 = 22" "hour_of 1700000030 = 22"
  by (simp_all add: hour_of_def)

lemma example_dayofweek: "dayofweek 1700000000 = 1"
  by (simp add: dayofweek_def example_date)

lemma example_day_of_era: "day_of_era 19675 = 8658"
  by (simp add: day_of_era_def)

lemma example_year_of_era: "year_of_era 19675 = 23"
  by (simp add: year_of_era_def example_day_of_era)

lemma example_day_of_march_year: "day_of_march_year 19675 = 258"
  by (simp add: day_of_march_year_def example_day_of_era example_year_of_era)

lemma example_month_day: "month_of 1700000000 = 11" "day_of 1700000000 = 14"
  by (simp_all add: month_of_def day_of_def example_date example_day_of_march_year)

lemmas example_rows = example_tx1_def example_tx2_def

lemma example_user_behavior:
  "analyze_user_behavior example_tx1 [example_tx1, example_tx2] =
     \<lparr>risk_contribution = 1 / 5, factors = [VeryRecentTransaction]\<rparr>"
  by (simp add: analyze_user_behavior_def example_rows add_factor_def no_risk_def
      daily_totals_def mean_of_examples std_of_examples fl_greater_def example_date Let_def)

lemma example_amount_patterns:
  "analyze_amount_patterns example_tx1 [example_tx1, example_tx2] =
     \<lparr>risk_contribution = 1 / 20, factors = [RoundAmountToNearest10 50]\<rparr>"
  by (simp add: analyze_amount_patterns_def example_rows add_factor_def no_risk_def
      quantile_def mean_of_examples std_of_examples py_mod_def fl_greater_def Let_def)

lemma example_temporal_patterns:
  "analyze_temporal_patterns example_tx1 [example_tx1, example_tx2] =
     \<lparr>risk_contribution = 3 / 20, factors = [OffHoursTransaction 22]\<rparr>"
  by (simp add: analyze_temporal_patterns_def example_rows add_factor_def no_risk_def
      example_hour example_dayofweek example_month_day)

lemma example_location_patterns:
  "analyze_location_patterns example_tx1 [example_tx1, example_tx2] =
     Inr \<lparr>risk_contribution = 7 / 20,
          factors = [RarelyUsedLocationGlobally, SuspiciousLocationName]\<rparr>"
  by (simp add: analyze_location_patterns_def example_rows add_factor_def no_risk_def
      value_counts_def count_in_def any_keyword_in_def suspicious_location_keywords_def
      lower_def Let_def)

lemma example_merchant_patterns:
  "analyze_merchant_patterns example_tx1 [example_tx1, example_tx2] =
     Inr \<lparr>risk_contribution = 1 / 10, factors = [RarelyUsedMerchant]\<rparr>"
  by (simp add: analyze_merchant_patterns_def example_rows add_factor_def no_risk_def
      value_counts_def count_in_def any_keyword_in_def single_high_risk_categories_def
      suspicious_merchant_keywords_def lower_def lower_char_def Let_def)

lemma example_analysis:
  "analyze_single_transaction example_tx1 [example_tx1, example_tx2] =
     Inr \<lparr>result_risk_score = 17 / 20,
          risk_factors = [VeryRecentTransaction, RoundAmountToNearest10 50,
            OffHoursTransaction 22, RarelyUsedLocationGlobally, SuspiciousLocationName,
            RarelyUsedMerchant],
          user_analysis = \<lparr>risk_contribution = 1 / 5, factors = [VeryRecentTransaction]\<rparr>,
          amount_analysis =
            \<lparr>risk_contribution = 1 / 20, factors = [RoundAmountToNearest10 50]\<rparr>,
          temporal_analysis =
            \<lparr>risk_contribution = 3 / 20, factors = [OffHoursTransaction 22]\<rparr>,
          location_analysis =
            \<lparr>risk_contribution = 7 / 20,
             factors = [RarelyUsedLocationGlobally, SuspiciousLocationName]\<rparr>,
          merchant_analysis = \<lparr>risk_contribution = 1 / 10, factors = [RarelyUsedMerchant]\<rparr>,
          recommendation =
            \<lparr>action = ''BLOCK'', confidence = ''HIGH'',
             reasoning = ''Multiple high-risk indicators detected'', risk_level = ''HIGH'',
             primary_concerns = [VeryRecentTransaction, RoundAmountToNearest10 50,
               OffHoursTransaction 22]\<rparr>\<rparr>"
  by (simp add: analyze_single_transaction_def example_user_behavior example_amount_patterns
      example_temporal_patterns example_location_patterns example_merchant_patterns
      get_recommendation_def get_risk_level_def)

lemma default_threshold: "default_settings\<lparr>high_risk_threshold := 0.7\<rparr> = default_settings"
  by (simp add: default_settings_def)

lemma detect_fraud_example_default:
  "detect_fraud default_settings [example_tx1, example_tx2] =
     [example_tx1\<lparr>risk_score := Fin (1 / 4), is_fraud := False,
        fraud_reasons := ''Off-hours transaction, High-risk location''\<rparr>,
      example_tx2\<lparr>risk_score := Fin (1 / 2), is_fraud := False,
        fraud_reasons :=
          ''Off-hours transaction, Rapid consecutive transactions, High-risk location''\<rparr>]"
  using detect_fraud_example [of "0.7"] by (simp add: default_threshold)

section \<open>The claims about the score\<close>

text \<open>
  Claim C1. Every risk score that the batch scorer writes, and the risk score of every
  result of the single-transaction analysis, lies between 0 and 1: the contributions are
  summed and the sum is capped at 1. In the batch frame the score is moreover a finite
  number, whatever rules fired: it is the smaller of 1 and the score the rules have
  added up, which is finite and not negative.
\<close>

theorem risk_score_in_unit_interval:
  "(\<forall>r \<in> set (detect_fraud s transactions). \<exists>x. risk_score r = Fin x \<and> 0 \<le> x \<and> x \<le> 1) \<and>
   (\<forall>res. analyze_single_transaction transaction historical_data = Inr res \<longrightarrow>
      0 \<le> result_risk_score res \<and> result_risk_score res \<le> 1 \<and>
      result_risk_score res =
        min (risk_contribution (user_analysis res) + risk_contribution (amount_analysis res)
             + risk_contribution (temporal_analysis res)
             + risk_contribution (location_analysis res)
             + risk_contribution (merchant_analysis res)) 1) \<and>
   map risk_score (detect_fraud s transactions) =
     map (\<lambda>r. fl_minimum (risk_score r) (Fin 1))
       (check_merchant_patterns (check_location_patterns (check_velocity_patterns s
         (check_time_patterns s (check_amount_anomalies s (init_columns transactions)))))) \<and>
   scores_nonneg
     (check_merchant_patterns (check_location_patterns (check_velocity_patterns s
       (check_time_patterns s (check_amount_anomalies s (init_columns transactions))))))"
proof (intro conjI ballI allI impI)
  show "map risk_score (detect_fraud s transactions) =
     map (\<lambda>r. fl_minimum (risk_score r) (Fin 1))
       (check_merchant_patterns (check_location_patterns (check_velocity_patterns s
         (check_time_patterns s (check_amount_anomalies s (init_columns transactions))))))"
    by (simp add: detect_fraud_def calculate_final_score_def Let_def)
  show "scores_nonneg
     (check_merchant_patterns (check_location_patterns (check_velocity_patterns s
       (check_time_patterns s (check_amount_anomalies s (init_columns transactions))))))"
    by (rule rules_nonneg)
next
  fix r assume "r \<in> set (detect_fraud s transactions)"
  from detect_fraud_row [OF this]
  show "\<exists>x. risk_score r = Fin x \<and> 0 \<le> x \<and> x \<le> 1" by blast
next
  fix res
  assume res: "analyze_single_transaction transaction historical_data = Inr res"
  then obtain la ma where la: "analyze_location_patterns transaction historical_data = Inr la"
    and ma: "analyze_merchant_patterns transaction historical_data = Inr ma"
    by (auto simp: analyze_single_transaction_def Let_def split: sum.splits)
  define total where "total =
    risk_contribution (analyze_user_behavior transaction historical_data)
    + risk_contribution (analyze_amount_patterns transaction historical_data)
    + risk_contribution (analyze_temporal_patterns transaction historical_data)
    + risk_contribution la + risk_contribution ma"
  have nonneg: "0 \<le> total"
    unfolding total_def
    using analyze_user_behavior_nonneg [of transaction historical_data]
      analyze_amount_patterns_nonneg [of transaction historical_data]
      analyze_temporal_patterns_nonneg [of transaction historical_data]
      analyze_location_patterns_nonneg [OF la] analyze_merchant_patterns_nonneg [OF ma]
    by linarith
  from res la ma have score: "result_risk_score res = min total 1"
    and parts: "user_analysis res = analyze_user_behavior transaction historical_data"
      "amount_analysis res = analyze_amount_patterns transaction historical_data"
      "temporal_analysis res = analyze_temporal_patterns transaction historical_data"
      "location_analysis res = la" "merchant_analysis res = ma"
    by (auto simp: analyze_single_transaction_def Let_def total_def)
  from nonneg score show "0 \<le> result_risk_score res" by simp
  from score show "result_risk_score res \<le> 1" by simp
  from score parts show "result_risk_score res =
        min (risk_contribution (user_analysis res) + risk_contribution (amount_analysis res)
             + risk_contribution (temporal_analysis res)
             + risk_contribution (location_analysis res)
             + risk_contribution (merchant_analysis res)) 1"
    by (simp add: total_def)
qed

theorem risk_score_in_unit_interval_witness:
  "(\<exists>x. risk_score (detect_fraud default_settings [example_tx1, example_tx2] ! 1) = Fin x \<and>
      x = 1 / 2 \<and> 0 \<le> x \<and> x \<le> 1) \<and>
   (\<exists>res. analyze_single_transaction example_tx1 [example_tx1, example_tx2] = Inr res \<and>
      result_risk_score res = 17 / 20 \<and>
      0 \<le> result_risk_score res \<and> result_risk_score res \<le> 1)"
  using risk_score_in_unit_interval
    [of default_settings "[example_tx1, example_tx2]" example_tx1 "[example_tx1, example_tx2]"]
  by (simp add: detect_fraud_example_default example_analysis)

text \<open>
  Claim C2. In the frame that the batch scorer returns, a row is flagged as fraud exactly
  when its risk score reaches the high-risk threshold of the settings the pass ran with.
\<close>

theorem is_fraud_iff_threshold_reached:
  "\<forall>r \<in> set (detect_fraud s transactions).
     \<exists>x. risk_score r = Fin x \<and> (is_fraud r \<longleftrightarrow> high_risk_threshold s \<le> x)"
proof
  fix r assume "r \<in> set (detect_fraud s transactions)"
  from detect_fraud_row [OF this]
  show "\<exists>x. risk_score r = Fin x \<and> (is_fraud r \<longleftrightarrow> high_risk_threshold s \<le> x)" by blast
qed

theorem is_fraud_iff_threshold_reached_witness:
  "map (\<lambda>r. (risk_score r, is_fraud r))
     (detect_fraud (default_settings\<lparr>high_risk_threshold := 0.5\<rparr>) [example_tx1, example_tx2])
   = [(Fin (1 / 4), False), (Fin (1 / 2), True)] \<and>
   (\<exists>x. Fin (1 / 2) = Fin x \<and> (True \<longleftrightarrow> (0.5::real) \<le> x)) \<and>
   (\<exists>x. Fin (1 / 4) = Fin x \<and> (False \<longleftrightarrow> (0.5::real) \<le> x))"
  using is_fraud_iff_threshold_reached
    [of "default_settings\<lparr>high_risk_threshold := 0.5\<rparr>" "[example_tx1, example_tx2]"]
  by (simp add: detect_fraud_example)

section \<open>The rapid-fire rule on two transactions\<close>

text \<open>
  Claim C3 says that of two transactions of one user with the same amount, thirty seconds
  apart, both receive the contribution of 0.25 for rapid consecutive transactions. The
  scorer compares each row with the user's previous row, so the earlier of the two rows has
  nothing to be compared with: in the example its score is 0.25 and its reasons do not name
  the rule, the later row has 0.5 and the reason.
\<close>

theorem both_rows_rapid_counterexample:
  "user_id example_tx1 = ''U1'' \<and> user_id example_tx2 = ''U1'' \<and>
   amount example_tx1 = amount example_tx2 \<and>
   timestamp example_tx2 - timestamp example_tx1 = 30 \<and>
   map (\<lambda>r. (transaction_id r, risk_score r, fraud_reasons r))
     (detect_fraud default_settings [example_tx1, example_tx2]) =
     [(''T1'', Fin (1 / 4), ''Off-hours transaction, High-risk location''),
      (''T2'', Fin (1 / 2),
       ''Off-hours transaction, Rapid consecutive transactions, High-risk location'')] \<and>
   \<not> is_substr ''Rapid consecutive transactions''
       (fraud_reasons (detect_fraud default_settings [example_tx1, example_tx2] ! 0))"
  by (simp add: detect_fraud_example_default) (simp add: example_rows)

text \<open>
  Claim C3, amended. Of two transactions of one user, thirty seconds apart, the rapid-fire
  rule adds 0.25 and its reason to the later one only, in whichever order the two rows
  stand in the frame: its score grows by 0.25 and its reasons by the reason of the rule,
  and the score and the reasons of the earlier one stay as they are. The velocity check
  of such a frame is that step followed by the hourly and the daily limits.
\<close>

theorem rapid_rule_flags_the_later_row_only:
  assumes "user_id a = user_id b" and "amount a = amount b"
    and "timestamp b = timestamp a + 30"
  shows "flag_rapid (rows_of_user (sort_values_timestamp [a, b]) (user_id a)) [a, b] =
           [a, bump 0.25 ''Rapid consecutive transactions, '' b] \<and>
         flag_rapid (rows_of_user (sort_values_timestamp [b, a]) (user_id a)) [b, a] =
           [bump 0.25 ''Rapid consecutive transactions, '' b, a] \<and>
         check_velocity_patterns s [a, b] =
           flag_daily s [(0, a), (1, b)] (flag_hourly s [(0, a), (1, b)]
             [a, bump 0.25 ''Rapid consecutive transactions, '' b]) \<and>
         check_velocity_patterns s [b, a] =
           flag_daily s [(1, a), (0, b)] (flag_hourly s [(1, a), (0, b)]
             [bump 0.25 ''Rapid consecutive transactions, '' b, a]) \<and>
         map (\<lambda>r. (risk_score r, fraud_reasons r))
           (flag_rapid (rows_of_user (sort_values_timestamp [a, b]) (user_id a)) [a, b]) =
           [(risk_score a, fraud_reasons a),
            (fl_add (risk_score b) (Fin 0.25),
             fraud_reasons b @ ''Rapid consecutive transactions, '')] \<and>
         map (\<lambda>r. (risk_score r, fraud_reasons r))
           (flag_rapid (rows_of_user (sort_values_timestamp [b, a]) (user_id a)) [b, a]) =
           [(fl_add (risk_score b) (Fin 0.25),
             fraud_reasons b @ ''Rapid consecutive transactions, ''),
            (risk_score a, fraud_reasons a)]"
  using assms
  by (simp add: check_velocity_patterns_def velocity_of_user_def flag_rapid_def
      rows_of_user_def sort_values_timestamp_def rapid_indices_def time_diff_def diff_def
      td_less_def loc_add_at_def enumerate_eq_zip Let_def)
     (simp add: bump_def)

theorem rapid_rule_flags_the_later_row_only_witness:
  "user_id example_tx1 = user_id example_tx2 \<and> amount example_tx1 = amount example_tx2 \<and>
   timestamp example_tx2 = timestamp example_tx1 + 30 \<and>
   flag_rapid (rows_of_user (sort_values_timestamp [example_tx1, example_tx2])
       (user_id example_tx1)) [example_tx1, example_tx2] =
     [example_tx1, bump 0.25 ''Rapid consecutive transactions, '' example_tx2] \<and>
   map (\<lambda>r. (risk_score r, fraud_reasons r))
     (flag_rapid (rows_of_user (sort_values_timestamp [example_tx1, example_tx2])
        (user_id example_tx1)) [example_tx1, example_tx2]) =
     [(Fin 0, ''''), (Fin (1 / 4), ''Rapid consecutive transactions, '')]"
  using rapid_rule_flags_the_later_row_only [of example_tx1 example_tx2 default_settings]
  by (simp add: example_rows) (simp add: bump_def)

section \<open>A population of identical amounts\<close>

lemma example_hours:
  "hour_of 1700003600 = 23" "hour_of 1700014400 = 2" "hour_of 1700050400 = 12"
  "dayofweek 1700003600 = 1" "dayofweek 1700014400 = 2" "dayofweek 1700050400 = 2"
  by (simp_all add: hour_of_def dayofweek_def date_of_def)

lemmas tiny_rows = tiny_tx1_def tiny_tx2_def tiny_tx3_def example_tx1_def

lemma detect_fraud_tiny:
  "detect_fraud default_settings [tiny_tx1, tiny_tx2, tiny_tx3] =
     [tiny_tx1\<lparr>risk_score := Fin (1 / 2), is_fraud := False,
        fraud_reasons := ''Extreme amount, Micro transaction, High-risk location''\<rparr>,
      tiny_tx2\<lparr>risk_score := Fin (1 / 2), is_fraud := False,
        fraud_reasons := ''Extreme amount, Micro transaction, High-risk location''\<rparr>,
      tiny_tx3\<lparr>risk_score := Fin (1 / 2), is_fraud := False,
        fraud_reasons := ''Extreme amount, Micro transaction, High-risk location''\<rparr>]"
  using tiny_amount_bounds
  by (simp add: batch_defs tiny_extreme tiny_rows example_hours)

text \<open>
  Claim C4 says that in a batch whose amounts are all the same no transaction receives
  the contribution for an extreme amount. The batch rule divides by the standard
  deviation without testing it; the single-transaction analysis tests it before it
  divides. For three transactions of the amount 1e-165 the sum of the amounts is rounded,
  the mean is the next double above the amount, the squares of the deviations underflow
  to zero and the standard deviation is zero: the z-score of every row is a non-zero
  number divided by zero, minus infinity, and every row is flagged with the reason for an
  extreme amount and its 0.3.
\<close>

theorem identical_tiny_amounts_are_flagged_extreme:
  "map amount [tiny_tx1, tiny_tx2, tiny_tx3] = [tiny_amount, tiny_amount, tiny_amount] \<and>
   tiny_amount = 8299031137761986 * 2 powi (- 601) \<and>
   mean (map amount [tiny_tx1, tiny_tx2, tiny_tx3]) = Fin (8299031137761987 * 2 powi (- 601)) \<and>
   std (map amount [tiny_tx1, tiny_tx2, tiny_tx3]) = Fin 0 \<and>
   f64_div (f64_sub (Fin (amount tiny_tx1)) (mean (map amount [tiny_tx1, tiny_tx2, tiny_tx3])))
     (std (map amount [tiny_tx1, tiny_tx2, tiny_tx3])) = NInf \<and>
   extreme_amounts [tiny_tx1, tiny_tx2, tiny_tx3] tiny_tx1 \<and>
   extreme_amounts [tiny_tx1, tiny_tx2, tiny_tx3] tiny_tx2 \<and>
   extreme_amounts [tiny_tx1, tiny_tx2, tiny_tx3] tiny_tx3 \<and>
   map (\<lambda>r. (transaction_id r, risk_score r, fraud_reasons r))
     (detect_fraud default_settings [tiny_tx1, tiny_tx2, tiny_tx3]) =
     [(''T1'', Fin (1 / 2), ''Extreme amount, Micro transaction, High-risk location''),
      (''T2'', Fin (1 / 2), ''Extreme amount, Micro transaction, High-risk location''),
      (''T3'', Fin (1 / 2), ''Extreme amount, Micro transaction, High-risk location'')]"
proof -
  have amounts: "map amount [tiny_tx1, tiny_tx2, tiny_tx3] =
      [tiny_amount, tiny_amount, tiny_amount]"
    by (simp add: tiny_rows)
  have a1: "amount tiny_tx1 = tiny_amount" "amount tiny_tx2 = tiny_amount"
    "amount tiny_tx3 = tiny_amount"
    by (simp_all add: tiny_rows)
  have amt: "tiny_amount = 8299031137761986 * 2 powi (- 601)"
    by (simp only: tiny_amount_def tiny_unit_def)
  have m: "mean (map amount [tiny_tx1, tiny_tx2, tiny_tx3]) =
      Fin (8299031137761987 * 2 powi (- 601))"
    unfolding amounts tiny_mean by (simp only: tiny_unit_def)
  have s: "std (map amount [tiny_tx1, tiny_tx2, tiny_tx3]) = Fin 0"
    unfolding amounts by (rule tiny_std)
  have z: "f64_div (f64_sub (Fin (amount tiny_tx1))
        (mean (map amount [tiny_tx1, tiny_tx2, tiny_tx3])))
      (std (map amount [tiny_tx1, tiny_tx2, tiny_tx3])) = NInf"
    unfolding amounts a1 by (rule tiny_z_score)
  have e: "extreme_amounts [tiny_tx1, tiny_tx2, tiny_tx3] tiny_tx1"
    "extreme_amounts [tiny_tx1, tiny_tx2, tiny_tx3] tiny_tx2"
    "extreme_amounts [tiny_tx1, tiny_tx2, tiny_tx3] tiny_tx3"
    by (rule tiny_extreme [OF amounts], rule a1)+
  have d: "map (\<lambda>r. (transaction_id r, risk_score r, fraud_reasons r))
     (detect_fraud default_settings [tiny_tx1, tiny_tx2, tiny_tx3]) =
     [(''T1'', Fin (1 / 2), ''Extreme amount, Micro transaction, High-risk location''),
      (''T2'', Fin (1 / 2), ''Extreme amount, Micro transaction, High-risk location''),
      (''T3'', Fin (1 / 2), ''Extreme amount, Micro transaction, High-risk location'')]"
    by (simp add: detect_fraud_tiny) (simp add: tiny_rows)
  from amounts amt m s z e d show ?thesis by blast
qed

section \<open>The off-hours window\<close>

lemma hour_of_less_24: "hour_of t < 24"
  by (simp add: hour_of_def nat_less_iff)

lemma fl_add_zero: "fl_add x (Fin 0) = x"
  by (cases x) simp_all

lemma check_time_patterns_row:
  assumes "i < length df"
  shows "fraud_reasons (check_time_patterns s df ! i) =
           fraud_reasons (df ! i)
           @ (if off_hours s (df ! i) then ''Off-hours transaction, '' else '''')
           @ (if weekend_transactions (df ! i) then ''Weekend transaction, '' else '''')"
    and "risk_score (check_time_patterns s df ! i) =
           fl_add (fl_add (risk_score (df ! i)) (Fin (if off_hours s (df ! i) then 0.15 else 0)))
             (Fin (if weekend_transactions (df ! i) then 0.05 else 0))"
  using assms
  by (simp_all add: check_time_patterns_def loc_add_def bump_def weekend_transactions_def
      off_hours_def fl_add_zero Let_def)

lemma check_time_patterns_example:
  "map (\<lambda>r. (transaction_id r, risk_score r, fraud_reasons r))
     (check_time_patterns default_settings [hour23_tx, hour2_tx, hour12_tx]) =
   [(''T1'', Fin (3 / 20), ''Off-hours transaction, ''),
    (''T2'', Fin (3 / 20), ''Off-hours transaction, ''),
    (''T3'', Fin 0, '''')]"
  by (simp add: check_time_patterns_def loc_add_def bump_def off_hours_def
      weekend_transactions_def default_settings_def hour23_tx_def hour2_tx_def hour12_tx_def
      example_tx1_def example_hours)

text \<open>
  Claim C5. The off-hours rule of the batch scorer reads the hours of its two settings.
  When the start hour is greater than the end hour the flagged hours are those from the
  start to 23 and from 0 to the end; otherwise they are those from the start to the end.
  The time check appends the reason for an off-hours transaction to the reasons of exactly
  those rows and adds 0.15 to their scores (and the reason and 0.05 of the weekend rule to
  the rows of a Saturday or Sunday); the other rows keep their scores and reasons. With
  start 22 and end 6, a row at hour 23 or 2 on a working day with score x leaves the check
  with x + 0.15 and the reason, and a row at hour 12 leaves it unchanged.
\<close>

theorem off_hours_window_wraps:
  "(off_hours s r \<longleftrightarrow>
      (if tod_hour (off_hours_start s) > tod_hour (off_hours_end s)
       then hour_of (timestamp r) \<in> {tod_hour (off_hours_start s)..<24} \<union>
                                    {0..tod_hour (off_hours_end s)}
       else hour_of (timestamp r) \<in> {tod_hour (off_hours_start s)..tod_hour (off_hours_end s)}))
   \<and> check_time_patterns s df =
       map (\<lambda>r. let r1 = (if off_hours s r then bump 0.15 ''Off-hours transaction, '' r else r)
                in if weekend_transactions r1 then bump 0.05 ''Weekend transaction, '' r1 else r1)
         df
   \<and> (tod_hour (off_hours_start s) = 22 \<and> tod_hour (off_hours_end s) = 6 \<longrightarrow>
        (hour_of (timestamp r) = 23 \<longrightarrow> off_hours s r) \<and>
        (hour_of (timestamp r) = 2 \<longrightarrow> off_hours s r) \<and>
        (hour_of (timestamp r) = 12 \<longrightarrow> \<not> off_hours s r))
   \<and> length (check_time_patterns s df) = length df
   \<and> (\<forall>i. i < length df \<longrightarrow>
        fraud_reasons (check_time_patterns s df ! i) =
          fraud_reasons (df ! i)
          @ (if off_hours s (df ! i) then ''Off-hours transaction, '' else '''')
          @ (if weekend_transactions (df ! i) then ''Weekend transaction, '' else '''') \<and>
        risk_score (check_time_patterns s df ! i) =
          fl_add (fl_add (risk_score (df ! i)) (Fin (if off_hours s (df ! i) then 0.15 else 0)))
            (Fin (if weekend_transactions (df ! i) then 0.05 else 0)))
   \<and> (\<forall>i x. tod_hour (off_hours_start s) = 22 \<and> tod_hour (off_hours_end s) = 6 \<and>
          i < length df \<and> risk_score (df ! i) = Fin x \<and> \<not> weekend_transactions (df ! i) \<longrightarrow>
        (hour_of (timestamp (df ! i)) \<in> {23, 2} \<longrightarrow>
           risk_score (check_time_patterns s df ! i) = Fin (x + 0.15) \<and>
           fraud_reasons (check_time_patterns s df ! i) =
             fraud_reasons (df ! i) @ ''Off-hours transaction, '') \<and>
        (hour_of (timestamp (df ! i)) = 12 \<longrightarrow>
           risk_score (check_time_patterns s df ! i) = Fin x \<and>
           fraud_reasons (check_time_patterns s df ! i) = fraud_reasons (df ! i)))"
proof -
  have window: "off_hours s r \<longleftrightarrow>
      (if tod_hour (off_hours_start s) > tod_hour (off_hours_end s)
       then hour_of (timestamp r) \<in> {tod_hour (off_hours_start s)..<24} \<union>
                                    {0..tod_hour (off_hours_end s)}
       else hour_of (timestamp r) \<in> {tod_hour (off_hours_start s)..tod_hour (off_hours_end s)})"
    for r
    using hour_of_less_24 [of "timestamp r"] by (auto simp: off_hours_def Let_def)
  have frame: "check_time_patterns s df =
       map (\<lambda>r. let r1 = (if off_hours s r then bump 0.15 ''Off-hours transaction, '' r else r)
                in if weekend_transactions r1 then bump 0.05 ''Weekend transaction, '' r1 else r1)
         df"
    by (simp add: check_time_patterns_def loc_add_def Let_def)
  have hours: "tod_hour (off_hours_start s) = 22 \<and> tod_hour (off_hours_end s) = 6 \<longrightarrow>
        (hour_of (timestamp r) = 23 \<longrightarrow> off_hours s r) \<and>
        (hour_of (timestamp r) = 2 \<longrightarrow> off_hours s r) \<and>
        (hour_of (timestamp r) = 12 \<longrightarrow> \<not> off_hours s r)" for r
    by (auto simp: off_hours_def Let_def)
  have len: "length (check_time_patterns s df) = length df"
    by (simp add: check_time_patterns_def loc_add_def)
  have rows: "\<forall>i. i < length df \<longrightarrow>
        fraud_reasons (check_time_patterns s df ! i) =
          fraud_reasons (df ! i)
          @ (if off_hours s (df ! i) then ''Off-hours transaction, '' else '''')
          @ (if weekend_transactions (df ! i) then ''Weekend transaction, '' else '''') \<and>
        risk_score (check_time_patterns s df ! i) =
          fl_add (fl_add (risk_score (df ! i)) (Fin (if off_hours s (df ! i) then 0.15 else 0)))
            (Fin (if weekend_transactions (df ! i) then 0.05 else 0))"
    using check_time_patterns_row by blast
  have at22: "\<forall>i x. tod_hour (off_hours_start s) = 22 \<and> tod_hour (off_hours_end s) = 6 \<and>
          i < length df \<and> risk_score (df ! i) = Fin x \<and> \<not> weekend_transactions (df ! i) \<longrightarrow>
        (hour_of (timestamp (df ! i)) \<in> {23, 2} \<longrightarrow>
           risk_score (check_time_patterns s df ! i) = Fin (x + 0.15) \<and>
           fraud_reasons (check_time_patterns s df ! i) =
             fraud_reasons (df ! i) @ ''Off-hours transaction, '') \<and>
        (hour_of (timestamp (df ! i)) = 12 \<longrightarrow>
           risk_score (check_time_patterns s df ! i) = Fin x \<and>
           fraud_reasons (check_time_patterns s df ! i) = fraud_reasons (df ! i))"
  proof (intro allI impI)
    fix i x
    assume a: "tod_hour (off_hours_start s) = 22 \<and> tod_hour (off_hours_end s) = 6 \<and>
          i < length df \<and> risk_score (df ! i) = Fin x \<and> \<not> weekend_transactions (df ! i)"
    then have i: "i < length df" by simp
    from a hours [of "df ! i"] have h:
      "hour_of (timestamp (df ! i)) \<in> {23, 2} \<longrightarrow> off_hours s (df ! i)"
      "hour_of (timestamp (df ! i)) = 12 \<longrightarrow> \<not> off_hours s (df ! i)"
      by auto
    from a h show "(hour_of (timestamp (df ! i)) \<in> {23, 2} \<longrightarrow>
           risk_score (check_time_patterns s df ! i) = Fin (x + 0.15) \<and>
           fraud_reasons (check_time_patterns s df ! i) =
             fraud_reasons (df ! i) @ ''Off-hours transaction, '') \<and>
        (hour_of (timestamp (df ! i)) = 12 \<longrightarrow>
           risk_score (check_time_patterns s df ! i) = Fin x \<and>
           fraud_reasons (check_time_patterns s df ! i) = fraud_reasons (df ! i))"
      by (simp add: check_time_patterns_row [OF i])
  qed
  from window [of r] frame hours [of r] len rows at22 show ?thesis by blast
qed

theorem off_hours_window_wraps_witness:
  "tod_hour (off_hours_start default_settings) = 22 \<and>
   tod_hour (off_hours_end default_settings) = 6 \<and>
   hour_of (timestamp ([hour23_tx, hour2_tx, hour12_tx] ! 0)) = 23 \<and>
   hour_of (timestamp ([hour23_tx, hour2_tx, hour12_tx] ! 1)) = 2 \<and>
   hour_of (timestamp ([hour23_tx, hour2_tx, hour12_tx] ! 2)) = 12 \<and>
   off_hours default_settings hour23_tx \<and> off_hours default_settings hour2_tx \<and>
   \<not> off_hours default_settings hour12_tx \<and>
   risk_score (check_time_patterns default_settings [hour23_tx, hour2_tx, hour12_tx] ! 0) =
     Fin (0 + 0.15) \<and>
   fraud_reasons (check_time_patterns default_settings [hour23_tx, hour2_tx, hour12_tx] ! 0) =
     ''Off-hours transaction, '' \<and>
   risk_score (check_time_patterns default_settings [hour23_tx, hour2_tx, hour12_tx] ! 1) =
     Fin (0 + 0.15) \<and>
   fraud_reasons (check_time_patterns default_settings [hour23_tx, hour2_tx, hour12_tx] ! 1) =
     ''Off-hours transaction, '' \<and>
   risk_score (check_time_patterns default_settings [hour23_tx, hour2_tx, hour12_tx] ! 2) =
     Fin 0 \<and>
   fraud_reasons (check_time_patterns default_settings [hour23_tx, hour2_tx, hour12_tx] ! 2) =
     '''' \<and>
   map (\<lambda>r. (transaction_id r, risk_score r, fraud_reasons r))
     (check_time_patterns default_settings [hour23_tx, hour2_tx, hour12_tx]) =
   [(''T1'', Fin (3 / 20), ''Off-hours transaction, ''),
    (''T2'', Fin (3 / 20), ''Off-hours transaction, ''),
    (''T3'', Fin 0, '''')]"
proof -
  let ?df = "[hour23_tx, hour2_tx, hour12_tx]"
  note rows = hour23_tx_def hour2_tx_def hour12_tx_def example_tx1_def
  have settings: "tod_hour (off_hours_start default_settings) = 22"
    "tod_hour (off_hours_end default_settings) = 6"
    by (simp_all add: default_settings_def)
  have hours: "hour_of (timestamp (?df ! 0)) = 23" "hour_of (timestamp (?df ! 1)) = 2"
    "hour_of (timestamp (?df ! 2)) = 12"
    by (simp_all add: rows example_hours)
  have pre: "\<And>i. i < 3 \<Longrightarrow> risk_score (?df ! i) = Fin 0 \<and> fraud_reasons (?df ! i) = '''' \<and>
      \<not> weekend_transactions (?df ! i)"
    by (simp add: rows nth_Cons' weekend_transactions_def example_hours)
  note claim0 = off_hours_window_wraps [of default_settings hour23_tx ?df]
  note claim1 = off_hours_window_wraps [of default_settings hour2_tx ?df]
  note claim2 = off_hours_window_wraps [of default_settings hour12_tx ?df]
  from claim0 settings hours(1) have m0: "off_hours default_settings hour23_tx" by simp
  from claim1 settings hours(2) have m1: "off_hours default_settings hour2_tx" by simp
  from claim2 settings hours(3) have m2: "\<not> off_hours default_settings hour12_tx" by simp
  have inst: "\<And>i x. tod_hour (off_hours_start default_settings) = 22 \<and>
          tod_hour (off_hours_end default_settings) = 6 \<and>
          i < length ?df \<and> risk_score (?df ! i) = Fin x \<and> \<not> weekend_transactions (?df ! i) \<Longrightarrow>
        (hour_of (timestamp (?df ! i)) \<in> {23, 2} \<longrightarrow>
           risk_score (check_time_patterns default_settings ?df ! i) = Fin (x + 0.15) \<and>
           fraud_reasons (check_time_patterns default_settings ?df ! i) =
             fraud_reasons (?df ! i) @ ''Off-hours transaction, '') \<and>
        (hour_of (timestamp (?df ! i)) = 12 \<longrightarrow>
           risk_score (check_time_patterns default_settings ?df ! i) = Fin x \<and>
           fraud_reasons (check_time_patterns default_settings ?df ! i) = fraud_reasons (?df ! i))"
    using claim0 by blast
  have e0: "risk_score (check_time_patterns default_settings ?df ! 0) = Fin (0 + 0.15)"
    "fraud_reasons (check_time_patterns default_settings ?df ! 0) = ''Off-hours transaction, ''"
    using inst [of 0 0] settings hours(1) pre [of 0] by simp_all
  have e1: "risk_score (check_time_patterns default_settings ?df ! 1) = Fin (0 + 0.15)"
    "fraud_reasons (check_time_patterns default_settings ?df ! 1) = ''Off-hours transaction, ''"
    using inst [of 1 0] settings hours(2) pre [of 1] by simp_all
  have e2: "risk_score (check_time_patterns default_settings ?df ! 2) = Fin 0"
    "fraud_reasons (check_time_patterns default_settings ?df ! 2) = ''''"
    using inst [of 2 0] settings hours(3) pre [of 2] by simp_all
  from settings hours m0 m1 m2 e0 e1 e2 check_time_patterns_example
  show ?thesis by blast
qed

section \<open>The recommendation\<close>

text \<open>
  Claim C6. The recommendation is read off the capped score by two separate ladders:
  BLOCK/HIGH from 0.8, REVIEW/MEDIUM from 0.6, MONITOR/LOW from 0.3 and APPROVE/HIGH
  below; the risk level HIGH from 0.7, MEDIUM from 0.4, LOW from 0.2 and VERY LOW below.
  The primary concerns are the first three risk factors, and the risk factors of an
  analysis are those of the user, amount, time, location and merchant analyses, in this
  order.
\<close>

theorem recommendation_ladders:
  "(action (get_recommendation score fs), confidence (get_recommendation score fs)) =
     (if score \<ge> 0.8 then (''BLOCK'', ''HIGH'')
      else if score \<ge> 0.6 then (''REVIEW'', ''MEDIUM'')
      else if score \<ge> 0.3 then (''MONITOR'', ''LOW'')
      else (''APPROVE'', ''HIGH''))
   \<and> risk_level (get_recommendation score fs) =
     (if score \<ge> 0.7 then ''HIGH''
      else if score \<ge> 0.4 then ''MEDIUM''
      else if score \<ge> 0.2 then ''LOW''
      else ''VERY LOW'')
   \<and> primary_concerns (get_recommendation score fs) = take 3 fs
   \<and> (\<forall>res. analyze_single_transaction transaction historical_data = Inr res \<longrightarrow>
         recommendation res = get_recommendation (result_risk_score res) (risk_factors res)
         \<and> user_analysis res = analyze_user_behavior transaction historical_data
         \<and> amount_analysis res = analyze_amount_patterns transaction historical_data
         \<and> temporal_analysis res = analyze_temporal_patterns transaction historical_data
         \<and> analyze_location_patterns transaction historical_data = Inr (location_analysis res)
         \<and> analyze_merchant_patterns transaction historical_data = Inr (merchant_analysis res)
         \<and> risk_factors res =
             factors (user_analysis res) @ factors (amount_analysis res)
             @ factors (temporal_analysis res) @ factors (location_analysis res)
             @ factors (merchant_analysis res)
         \<and> primary_concerns (recommendation res) = take 3 (risk_factors res))"
proof -
  have ladders: "(action (get_recommendation score fs), confidence (get_recommendation score fs)) =
     (if score \<ge> 0.8 then (''BLOCK'', ''HIGH'')
      else if score \<ge> 0.6 then (''REVIEW'', ''MEDIUM'')
      else if score \<ge> 0.3 then (''MONITOR'', ''LOW'')
      else (''APPROVE'', ''HIGH''))"
    by (simp add: get_recommendation_def)
  have level: "risk_level (get_recommendation score fs) =
     (if score \<ge> 0.7 then ''HIGH''
      else if score \<ge> 0.4 then ''MEDIUM''
      else if score \<ge> 0.2 then ''LOW''
      else ''VERY LOW'')"
    by (simp add: get_recommendation_def get_risk_level_def split_beta)
  have concerns: "primary_concerns (get_recommendation x gs) = take 3 gs" for x gs
    by (simp add: get_recommendation_def split_beta)
  have whole: "\<forall>res. analyze_single_transaction transaction historical_data = Inr res \<longrightarrow>
         recommendation res = get_recommendation (result_risk_score res) (risk_factors res)
         \<and> user_analysis res = analyze_user_behavior transaction historical_data
         \<and> amount_analysis res = analyze_amount_patterns transaction historical_data
         \<and> temporal_analysis res = analyze_temporal_patterns transaction historical_data
         \<and> analyze_location_patterns transaction historical_data = Inr (location_analysis res)
         \<and> analyze_merchant_patterns transaction historical_data = Inr (merchant_analysis res)
         \<and> risk_factors res =
             factors (user_analysis res) @ factors (amount_analysis res)
             @ factors (temporal_analysis res) @ factors (location_analysis res)
             @ factors (merchant_analysis res)
         \<and> primary_concerns (recommendation res) = take 3 (risk_factors res)"
    by (auto simp: analyze_single_transaction_def Let_def concerns split: sum.splits)
  from ladders level concerns whole show ?thesis by blast
qed

theorem recommendation_ladders_witness:
  "\<exists>res. analyze_single_transaction example_tx1 [example_tx1, example_tx2] = Inr res \<and>
     result_risk_score res = 17 / 20 \<and>
     action (recommendation res) = ''BLOCK'' \<and> confidence (recommendation res) = ''HIGH'' \<and>
     risk_level (recommendation res) = ''HIGH'' \<and>
     risk_factors res = [VeryRecentTransaction, RoundAmountToNearest10 50,
       OffHoursTransaction 22, RarelyUsedLocationGlobally, SuspiciousLocationName,
       RarelyUsedMerchant] \<and>
     primary_concerns (recommendation res) =
       [VeryRecentTransaction, RoundAmountToNearest10 50, OffHoursTransaction 22] \<and>
     primary_concerns (recommendation res) = take 3 (risk_factors res)"
  using recommendation_ladders [of "17 / 20" "[]" example_tx1 "[example_tx1, example_tx2]"]
  by (simp add: example_analysis get_recommendation_def get_risk_level_def)

section \<open>Updating the settings\<close>

text \<open>
  Claim C7 says that an update with a threshold outside the interval from 0 to 1 is
  rejected and changes nothing. The update is a plain dictionary update with no check:
  the threshold 1.5 is stored.
\<close>

theorem out_of_range_threshold_merged_counterexample:
  "\<not> (0 \<le> (1.5::real) \<and> (1.5::real) \<le> 1) \<and>
   update_settings default_settings (empty_update\<lparr>new_high_risk_threshold := Some 1.5\<rparr>) =
     default_settings\<lparr>high_risk_threshold := 1.5\<rparr> \<and>
   update_settings default_settings (empty_update\<lparr>new_high_risk_threshold := Some 1.5\<rparr>) \<noteq>
     default_settings"
  by (simp add: update_settings_def empty_update_def default_settings_def override_def)

text \<open>
  Claim C7, amended. The settings update checks nothing and rejects nothing: for every
  update, well-formed or not, each setting the update names takes the new value, whatever
  it is, and each setting it does not name keeps its value.
\<close>

theorem update_settings_merges_every_update:
  "high_risk_threshold (update_settings s u) =
     (case new_high_risk_threshold u of None \<Rightarrow> high_risk_threshold s | Some v \<Rightarrow> v) \<and>
   medium_risk_threshold (update_settings s u) =
     (case new_medium_risk_threshold u of None \<Rightarrow> medium_risk_threshold s | Some v \<Rightarrow> v) \<and>
   unusual_amount_threshold (update_settings s u) =
     (case new_unusual_amount_threshold u of None \<Rightarrow> unusual_amount_threshold s | Some v \<Rightarrow> v) \<and>
   micro_transaction_threshold (update_settings s u) =
     (case new_micro_transaction_threshold u of
        None \<Rightarrow> micro_transaction_threshold s | Some v \<Rightarrow> v) \<and>
   off_hours_start (update_settings s u) =
     (case new_off_hours_start u of None \<Rightarrow> off_hours_start s | Some v \<Rightarrow> v) \<and>
   off_hours_end (update_settings s u) =
     (case new_off_hours_end u of None \<Rightarrow> off_hours_end s | Some v \<Rightarrow> v) \<and>
   max_transactions_per_hour (update_settings s u) =
     (case new_max_transactions_per_hour u of
        None \<Rightarrow> max_transactions_per_hour s | Some v \<Rightarrow> v) \<and>
   max_amount_per_day (update_settings s u) =
     (case new_max_amount_per_day u of None \<Rightarrow> max_amount_per_day s | Some v \<Rightarrow> v) \<and>
   update_settings s empty_update = s \<and>
   high_risk_threshold (update_settings s (u\<lparr>new_high_risk_threshold := Some v\<rparr>)) = v"
  by (simp add: update_settings_def override_def empty_update_def)

theorem update_settings_merges_every_update_witness:
  "update_settings default_settings
     (empty_update\<lparr>new_high_risk_threshold := Some 0.5,
        new_off_hours_end := Some \<lparr>tod_hour = 5, tod_minute = 30\<rparr>\<rparr>) =
   default_settings\<lparr>high_risk_threshold := 0.5,
     off_hours_end := \<lparr>tod_hour = 5, tod_minute = 30\<rparr>\<rparr> \<and>
   high_risk_threshold (update_settings default_settings
     (empty_update\<lparr>new_high_risk_threshold := Some (- 3)\<rparr>)) = - 3"
  using update_settings_merges_every_update [of default_settings
      "empty_update\<lparr>new_high_risk_threshold := Some 0.5,
         new_off_hours_end := Some \<lparr>tod_hour = 5, tod_minute = 30\<rparr>\<rparr>" 0]
    update_settings_merges_every_update [of default_settings empty_update "- 3"]
  by (simp add: update_settings_def override_def empty_update_def default_settings_def)

section \<open>Scoring again\<close>

lemma transaction_columns_bump [simp]:
  "transaction_columns (bump c l r) = transaction_columns r"
  by (simp add: transaction_columns_def bump_def)

lemma same_transactions_refl: "same_transactions df df"
  by (simp add: same_transactions_def)

lemma same_transactions_trans:
  "same_transactions a b \<Longrightarrow> same_transactions b c \<Longrightarrow> same_transactions a c"
  by (simp add: same_transactions_def)

lemma loc_add_same: "same_transactions df (loc_add m c l df)"
  by (simp add: same_transactions_def loc_add_def)

lemma loc_add_at_same: "same_transactions df (loc_add_at idx c l df)"
proof -
  have "map transaction_columns
          (map (\<lambda>(i, r). if i \<in> set idx then bump c l r else r) (enumerate n df)) =
        map transaction_columns df" for n
    by (induction df arbitrary: n) simp_all
  then show ?thesis by (simp add: same_transactions_def loc_add_at_def)
qed

lemma fold_same:
  assumes "\<And>x d. same_transactions d (f x d)"
  shows "same_transactions df (fold f xs df)"
proof (induction xs arbitrary: df)
  case Nil
  show ?case by (simp add: same_transactions_refl)
next
  case (Cons x xs)
  show ?case
    using same_transactions_trans [OF assms [of df x] Cons.IH [of "f x df"]] by simp
qed

lemma check_amount_anomalies_same: "same_transactions df (check_amount_anomalies s df)"
  unfolding check_amount_anomalies_def
  by (rule same_transactions_trans [OF loc_add_same
        same_transactions_trans [OF loc_add_same
          same_transactions_trans [OF loc_add_same loc_add_same]]])

lemma check_time_patterns_same: "same_transactions df (check_time_patterns s df)"
  unfolding check_time_patterns_def
  by (rule same_transactions_trans [OF loc_add_same loc_add_same])

lemma velocity_of_user_same: "same_transactions df (velocity_of_user s ut df)"
proof -
  have 1: "same_transactions df (flag_rapid ut df)" for df
    by (simp add: flag_rapid_def loc_add_at_same)
  have 2: "same_transactions df (flag_hourly s ut df)" for df
    unfolding flag_hourly_def by (rule fold_same) (rule loc_add_at_same)
  have 3: "same_transactions df (flag_daily s ut df)" for df
    unfolding flag_daily_def by (rule fold_same) (rule loc_add_at_same)
  show ?thesis
    unfolding velocity_of_user_def
    by (rule same_transactions_trans [OF 1 same_transactions_trans [OF 2 3]])
qed

lemma check_velocity_patterns_same: "same_transactions df (check_velocity_patterns s df)"
  unfolding check_velocity_patterns_def Let_def
  by (rule fold_same) (simp add: velocity_of_user_same same_transactions_refl)

lemma check_location_patterns_same: "same_transactions df (check_location_patterns df)"
  unfolding check_location_patterns_def Let_def
  by (rule same_transactions_trans [OF fold_same fold_same])
     (simp_all add: loc_add_at_same loc_add_same same_transactions_refl)

lemma check_merchant_patterns_same: "same_transactions df (check_merchant_patterns df)"
  unfolding check_merchant_patterns_def Let_def
  by (rule same_transactions_trans [OF loc_add_same
        same_transactions_trans [OF fold_same fold_same]])
     (simp_all add: loc_add_same)

lemma calculate_final_score_same: "same_transactions df (calculate_final_score s df)"
  by (simp add: same_transactions_def calculate_final_score_def transaction_columns_def
      Let_def)

lemma init_columns_eq: "init_columns df = map transaction_columns df"
  by (simp add: init_columns_def transaction_columns_def)

lemma init_columns_same: "same_transactions df (init_columns df)"
  by (simp add: same_transactions_def init_columns_eq transaction_columns_def)

lemma detect_fraud_same: "same_transactions df (detect_fraud s df)"
  unfolding detect_fraud_def
  by (rule same_transactions_trans [OF init_columns_same
        same_transactions_trans [OF check_amount_anomalies_same
          same_transactions_trans [OF check_time_patterns_same
            same_transactions_trans [OF check_velocity_patterns_same
              same_transactions_trans [OF check_location_patterns_same
                same_transactions_trans [OF check_merchant_patterns_same
                  calculate_final_score_same]]]]]])

lemma detect_fraud_cong:
  "map transaction_columns df' = map transaction_columns df \<Longrightarrow>
   detect_fraud s df' = detect_fraud s df"
  by (simp add: detect_fraud_def init_columns_eq)

text \<open>
  Claim C8. Scoring is a function of the settings and the transaction columns alone: the
  scorer starts from a copy whose three scoring columns are set anew, so scoring the same
  transactions again, also when the frame already carries the columns of an earlier pass,
  gives the same scores, flags and reasons; and the returned frame holds the transactions
  unchanged, row by row.
\<close>

theorem rescoring_gives_the_same_result:
  "detect_fraud s (detect_fraud s transactions) = detect_fraud s transactions \<and>
   map transaction_columns (detect_fraud s transactions) =
     map transaction_columns transactions \<and>
   (map transaction_columns transactions' = map transaction_columns transactions \<longrightarrow>
      map (\<lambda>r. (risk_score r, is_fraud r, fraud_reasons r)) (detect_fraud s transactions') =
      map (\<lambda>r. (risk_score r, is_fraud r, fraud_reasons r)) (detect_fraud s transactions))"
  using detect_fraud_same [of transactions s] detect_fraud_cong [of transactions' transactions s]
    detect_fraud_cong [of "detect_fraud s transactions" transactions s]
  by (simp add: same_transactions_def)

theorem rescoring_gives_the_same_result_witness:
  "detect_fraud (default_settings\<lparr>high_risk_threshold := 0.5\<rparr>)
     (detect_fraud (default_settings\<lparr>high_risk_threshold := 0.5\<rparr>) [example_tx1, example_tx2]) =
   detect_fraud (default_settings\<lparr>high_risk_threshold := 0.5\<rparr>) [example_tx1, example_tx2] \<and>
   map (\<lambda>r. (risk_score r, is_fraud r, fraud_reasons r))
     (detect_fraud (default_settings\<lparr>high_risk_threshold := 0.5\<rparr>)
        [example_tx1\<lparr>risk_score := NaN, is_fraud := True, fraud_reasons := ''stale''\<rparr>,
         example_tx2\<lparr>risk_score := Fin 7\<rparr>]) =
   [(Fin (1 / 4), False, ''Off-hours transaction, High-risk location''),
    (Fin (1 / 2), True,
     ''Off-hours transaction, Rapid consecutive transactions, High-risk location'')]"
  using rescoring_gives_the_same_result
    [of "default_settings\<lparr>high_risk_threshold := 0.5\<rparr>" "[example_tx1, example_tx2]"
      "[example_tx1\<lparr>risk_score := NaN, is_fraud := True, fraud_reasons := ''stale''\<rparr>,
        example_tx2\<lparr>risk_score := Fin 7\<rparr>]"]
  by (simp add: detect_fraud_example) (simp add: transaction_columns_def example_rows)

section \<open>The empty keyword\<close>

lemma is_substr_empty: "is_substr [] s"
  by (cases s) simp_all

lemma str_lower_contains_empty: "str_lower_contains [] (Some l)"
  by (simp add: str_lower_contains_def is_substr_empty)

lemma score_grown_refl: "score_grown r r"
  by (cases "risk_score r") (simp_all add: score_grown_def)

lemma score_grown_trans: "score_grown a b \<Longrightarrow> score_grown b c \<Longrightarrow> score_grown a c"
  by (cases "risk_score a"; cases "risk_score b"; cases "risk_score c")
     (simp_all add: score_grown_def)

lemma score_grown_bump: "0 \<le> c \<Longrightarrow> score_grown r (bump c l r)"
  by (cases "risk_score r") (simp_all add: score_grown_def bump_def transaction_columns_def)

lemma frame_grown_refl: "frame_grown df df"
  by (simp add: frame_grown_def list_all2_same score_grown_refl)

lemma frame_grown_trans: "frame_grown a b \<Longrightarrow> frame_grown b c \<Longrightarrow> frame_grown a c"
  unfolding frame_grown_def
  by (rule list_all2_trans [where ?P1.0 = score_grown and ?P2.0 = score_grown])
     (auto intro: score_grown_trans)

lemma loc_add_grown: "0 \<le> c \<Longrightarrow> frame_grown df (loc_add m c l df)"
  by (simp add: frame_grown_def loc_add_def list_all2_map2 list_all2_same score_grown_refl
      score_grown_bump)

lemma loc_add_at_grown:
  assumes "0 \<le> c"
  shows "frame_grown df (loc_add_at idx c l df)"
proof -
  have "list_all2 score_grown df
          (map (\<lambda>(i, r). if i \<in> set idx then bump c l r else r) (enumerate n df))" for n
    using assms by (induction df arbitrary: n) (simp_all add: score_grown_refl score_grown_bump)
  then show ?thesis by (simp add: frame_grown_def loc_add_at_def)
qed

lemma fold_grown:
  assumes "\<And>x d. frame_grown d (f x d)"
  shows "frame_grown df (fold f xs df)"
proof (induction xs arbitrary: df)
  case Nil
  show ?case by (simp add: frame_grown_refl)
next
  case (Cons x xs)
  show ?case
    using frame_grown_trans [OF assms [of df x] Cons.IH [of "f x df"]] by simp
qed

lemma check_location_patterns_last_keyword:
  "check_location_patterns df =
     loc_add (\<lambda>r. str_lower_contains [] (location r)) 0.1 ''High-risk location, ''
       (before_empty_keyword df)"
  by (simp add: check_location_patterns_def before_empty_keyword_def high_risk_keywords_def
      Let_def)

lemma before_empty_keyword_grown: "frame_grown df (before_empty_keyword df)"
  unfolding before_empty_keyword_def Let_def
  by (rule frame_grown_trans [OF fold_grown fold_grown])
     (simp_all add: loc_add_at_grown loc_add_grown frame_grown_refl)

lemma score_grown_location: "score_grown r r' \<Longrightarrow> location r' = location r"
proof -
  assume "score_grown r r'"
  then have "location (transaction_columns r') = location (transaction_columns r)"
    by (simp add: score_grown_def)
  then show ?thesis by (simp add: transaction_columns_def)
qed

lemma check_location_patterns_row:
  assumes "i < length df" and "location (df ! i) \<noteq> None"
  shows "length (check_location_patterns df) = length df \<and>
         (\<exists>r'. score_grown (df ! i) r' \<and>
            check_location_patterns df ! i = bump 0.1 ''High-risk location, '' r')"
proof -
  let ?mid = "before_empty_keyword df"
  have grown: "list_all2 score_grown df ?mid"
    using before_empty_keyword_grown [of df] by (simp add: frame_grown_def)
  then have len: "length ?mid = length df" by (simp add: list_all2_lengthD)
  from grown assms(1) have g: "score_grown (df ! i) (?mid ! i)"
    by (rule list_all2_nthD)
  with assms(2) obtain l where "location (?mid ! i) = Some l"
    by (auto dest: score_grown_location)
  with assms(1) len have "check_location_patterns df ! i =
      bump 0.1 ''High-risk location, '' (?mid ! i)"
    by (simp add: check_location_patterns_last_keyword loc_add_def str_lower_contains_empty)
  with g len show ?thesis
    by (auto simp: check_location_patterns_last_keyword loc_add_def)
qed

lemma analyze_location_patterns_suspicious:
  assumes "location transaction = Some l"
  shows "\<exists>a. analyze_location_patterns transaction historical_data =
               Inr (add_factor 0.25 SuspiciousLocationName a) \<and> 0 \<le> risk_contribution a"
proof -
  have any: "any_keyword_in suspicious_location_keywords l"
    by (simp add: any_keyword_in_def suspicious_location_keywords_def lower_def
        is_substr_empty)
  show ?thesis
    using assms any
    by (auto simp: analyze_location_patterns_def Let_def no_risk_nonneg add_factor_nonneg
        split: option.splits)
qed

lemma example_check_location_patterns:
  "check_location_patterns [example_tx1, example_tx2] =
     [bump 0.1 ''High-risk location, '' example_tx1,
      bump 0.1 ''High-risk location, '' example_tx2]"
  by (simp add: check_location_patterns_def sort_values_timestamp_def rows_of_user_def
      rapid_location_indices_def location_changed_def ne_na_def time_diff_def diff_def
      td_less_def high_risk_keywords_def str_lower_contains_def lower_def lower_char_def
      loc_add_def loc_add_at_def enumerate_eq_zip example_rows Let_def)

text \<open>
  Claim C9. The empty keyword is contained in every text. In the batch scorer it is the
  last keyword tried, so every row with a location ends the location check with the
  reason for a high-risk location and a score at least 0.1 higher than before; in the
  single-transaction analysis every transaction with a location receives the factor for a
  suspicious location name with its 0.25 (without a location the analysis raises an
  error and returns nothing).
\<close>

theorem empty_keyword_flags_every_location:
  "(\<forall>i. i < length df \<and> location (df ! i) \<noteq> None \<longrightarrow>
      (\<exists>pre. fraud_reasons (check_location_patterns df ! i) = pre @ ''High-risk location, '') \<and>
      (\<forall>x. risk_score (df ! i) = Fin x \<longrightarrow>
         (\<exists>y. risk_score (check_location_patterns df ! i) = Fin y \<and> x + 0.1 \<le> y))) \<and>
   (\<forall>l. location transaction = Some l \<longrightarrow>
      str_lower_contains [] (location transaction) \<and>
      (\<exists>a. analyze_location_patterns transaction historical_data =
              Inr (add_factor 0.25 SuspiciousLocationName a) \<and> 0 \<le> risk_contribution a)) \<and>
   (\<forall>res. analyze_single_transaction transaction historical_data = Inr res \<longrightarrow>
      SuspiciousLocationName \<in> set (risk_factors res) \<and>
      0.25 \<le> risk_contribution (location_analysis res))"
proof (intro conjI allI impI)
  fix i assume i: "i < length df \<and> location (df ! i) \<noteq> None"
  then obtain r' where g: "score_grown (df ! i) r'"
    and out: "check_location_patterns df ! i = bump 0.1 ''High-risk location, '' r'"
    using check_location_patterns_row [of i df] by blast
  show "\<exists>pre. fraud_reasons (check_location_patterns df ! i) = pre @ ''High-risk location, ''"
    by (simp add: out bump_def)
  fix x assume "risk_score (df ! i) = Fin x"
  with g obtain z where "risk_score r' = Fin z" "x \<le> z"
    by (cases "risk_score r'") (simp_all add: score_grown_def)
  then show "\<exists>y. risk_score (check_location_patterns df ! i) = Fin y \<and> x + 0.1 \<le> y"
    by (simp add: out bump_def)
next
  fix l assume "location transaction = Some l"
  then show "str_lower_contains [] (location transaction)"
    by (simp add: str_lower_contains_empty)
next
  fix l assume "location transaction = Some l"
  then show "\<exists>a. analyze_location_patterns transaction historical_data =
              Inr (add_factor 0.25 SuspiciousLocationName a) \<and> 0 \<le> risk_contribution a"
    by (rule analyze_location_patterns_suspicious)
next
  fix res
  assume res: "analyze_single_transaction transaction historical_data = Inr res"
  then obtain la ma where la: "analyze_location_patterns transaction historical_data = Inr la"
    and ma: "analyze_merchant_patterns transaction historical_data = Inr ma"
    by (auto simp: analyze_single_transaction_def Let_def split: sum.splits)
  with res have fs: "location_analysis res = la"
    "set (factors la) \<subseteq> set (risk_factors res)"
    by (auto simp: analyze_single_transaction_def Let_def)
  from la obtain l where "location transaction = Some l"
    by (auto simp: analyze_location_patterns_def Let_def split: option.splits)
  from analyze_location_patterns_suspicious [OF this, of historical_data] la
  obtain a where a: "la = add_factor 0.25 SuspiciousLocationName a" "0 \<le> risk_contribution a"
    by auto
  from a fs show "SuspiciousLocationName \<in> set (risk_factors res)"
    by (auto simp: add_factor_def)
  from a fs show "0.25 \<le> risk_contribution (location_analysis res)"
    by (simp add: add_factor_def)
qed

theorem empty_keyword_flags_every_location_witness:
  "location ([example_tx1, example_tx2] ! 0) = Some ''Paris'' \<and>
   risk_score ([example_tx1, example_tx2] ! 0) = Fin 0 \<and>
   check_location_patterns [example_tx1, example_tx2] =
     [bump 0.1 ''High-risk location, '' example_tx1,
      bump 0.1 ''High-risk location, '' example_tx2] \<and>
   (\<exists>pre. fraud_reasons (check_location_patterns [example_tx1, example_tx2] ! 0) =
      pre @ ''High-risk location, '') \<and>
   (\<exists>y. risk_score (check_location_patterns [example_tx1, example_tx2] ! 0) = Fin y \<and>
      0 + 0.1 \<le> y) \<and>
   (\<exists>a. analyze_location_patterns example_tx1 [example_tx1, example_tx2] =
      Inr (add_factor 0.25 SuspiciousLocationName a) \<and> 0 \<le> risk_contribution a) \<and>
   (\<exists>res. analyze_single_transaction example_tx1 [example_tx1, example_tx2] = Inr res \<and>
      SuspiciousLocationName \<in> set (risk_factors res))"
proof -
  let ?df = "[example_tx1, example_tx2]"
  note claim = empty_keyword_flags_every_location [of ?df example_tx1 ?df]
  have row: "0 < length ?df \<and> location (?df ! 0) \<noteq> None"
    and loc: "location (?df ! 0) = Some ''Paris''" "location example_tx1 = Some ''Paris''"
    and score: "risk_score (?df ! 0) = Fin 0"
    by (simp_all add: example_rows)
  from claim row have batch:
    "(\<exists>pre. fraud_reasons (check_location_patterns ?df ! 0) = pre @ ''High-risk location, '') \<and>
     (\<forall>x. risk_score (?df ! 0) = Fin x \<longrightarrow>
        (\<exists>y. risk_score (check_location_patterns ?df ! 0) = Fin y \<and> x + 0.1 \<le> y))"
    by blast
  with score have grown:
    "\<exists>y. risk_score (check_location_patterns ?df ! 0) = Fin y \<and> 0 + 0.1 \<le> y"
    by blast
  from claim loc(2) have single:
    "\<exists>a. analyze_location_patterns example_tx1 ?df =
       Inr (add_factor 0.25 SuspiciousLocationName a) \<and> 0 \<le> risk_contribution a"
    by blast
  from claim example_analysis have whole:
    "\<exists>res. analyze_single_transaction example_tx1 ?df = Inr res \<and>
       SuspiciousLocationName \<in> set (risk_factors res)"
    by blast
  from loc(1) score example_check_location_patterns batch grown single whole
  show ?thesis by blast
qed

lemma example_later_history:
  "analyze_user_behavior example_tx1 [example_tx1\<lparr>timestamp := 1700864000\<rparr>] =
     \<lparr>risk_contribution = 1 / 5, factors = [VeryRecentTransaction]\<rparr>"
  by (simp add: analyze_user_behavior_def example_rows add_factor_def no_risk_def
      daily_totals_def mean_of_examples std_of_examples fl_greater_def date_of_def Let_def)

section \<open>A transaction earlier than the user's latest one\<close>

text \<open>
  Claim C10. The user analysis subtracts the latest timestamp of the user's history from
  the timestamp of the analyzed transaction. When the transaction is earlier than that
  latest one the difference is negative, hence below five minutes, and the factor for a
  very recent transaction is added with its 0.2, however far apart the transactions are.
\<close>

theorem earlier_than_latest_counts_as_very_recent:
  assumes "user_transactions = filter (\<lambda>r. user_id r = user_id transaction) historical_data"
    and "user_transactions \<noteq> []"
    and "timestamp transaction < Max (set (map timestamp user_transactions))"
  shows "timestamp transaction - Max (set (map timestamp user_transactions)) < 0 \<and>
         VeryRecentTransaction \<in> set (factors (analyze_user_behavior transaction historical_data))
         \<and> 0.2 \<le> risk_contribution (analyze_user_behavior transaction historical_data)"
proof -
  let ?ut = "filter (\<lambda>r. user_id r = user_id transaction) historical_data"
  from assms have ne: "?ut \<noteq> []" and lt: "timestamp transaction < Max (set (map timestamp ?ut))"
    by simp_all
  have "VeryRecentTransaction \<in> set (factors (analyze_user_behavior transaction historical_data))
         \<and> 0.2 \<le> risk_contribution (analyze_user_behavior transaction historical_data)"
    using ne lt
    by (simp add: analyze_user_behavior_def Let_def add_factor_def no_risk_def)
  with assms(1) lt show ?thesis by simp
qed

theorem earlier_than_latest_counts_as_very_recent_witness:
  "timestamp example_tx1 - Max (set (map timestamp [example_tx1\<lparr>timestamp := 1700864000\<rparr>]))
     = - 864000 \<and>
   analyze_user_behavior example_tx1 [example_tx1\<lparr>timestamp := 1700864000\<rparr>] =
     \<lparr>risk_contribution = 1 / 5, factors = [VeryRecentTransaction]\<rparr> \<and>
   VeryRecentTransaction \<in>
     set (factors (analyze_user_behavior example_tx1 [example_tx1\<lparr>timestamp := 1700864000\<rparr>]))"
  using earlier_than_latest_counts_as_very_recent
    [of "[example_tx1\<lparr>timestamp := 1700864000\<rparr>]" example_tx1
      "[example_tx1\<lparr>timestamp := 1700864000\<rparr>]"]
  by (simp add: example_later_history) (simp add: example_rows)

end
